theory Spec2Isabelle
  imports Complex_Main "HOL-Library.Word" "HOL-Library.AList"
begin

section \<open>Machine types and return codes of write.c\<close>

type_synonym u8 = "8 word"
type_synonym u64 = "64 word"
type_synonym bytes = "u8 list"

text \<open>
  The values of \<open>int ret\<close> that write.c produces or tests. The numeric values of the
  \<open>WIMLIB_ERR_*\<close> enumeration are declared outside write.c; only their being distinct
  and non-negative is used. \<open>MINUS_ONE\<close> is the literal \<open>-1\<close> that
  \<open>write_stream_list_parallel\<close> assigns when \<open>pthread_create\<close> fails, the only negative
  value. Success (0) is \<open>None\<close> of \<open>ret\<close>.
\<close>

datatype wimlib_error =
    WIMLIB_ERR_ALREADY_LOCKED
  | WIMLIB_ERR_INVALID_IMAGE
  | WIMLIB_ERR_INVALID_PARAM
  | WIMLIB_ERR_INVALID_RESOURCE_HASH
  | WIMLIB_ERR_NOMEM
  | WIMLIB_ERR_NO_FILENAME
  | WIMLIB_ERR_OPEN
  | WIMLIB_ERR_READ
  | WIMLIB_ERR_RENAME
  | WIMLIB_ERR_REOPEN
  | WIMLIB_ERR_RESOURCE_ORDER
  | WIMLIB_ERR_SPLIT_UNSUPPORTED
  | WIMLIB_ERR_WRITE
  | MINUS_ONE

type_synonym ret = "wimlib_error option"

definition WIM_CHUNK_SIZE :: u64 where
  "WIM_CHUNK_SIZE = 32768"

section \<open>The output file and the environment's failures\<close>

text \<open>
  The file behind \<open>out_fp\<close>: its bytes and the position of the stream. Every call into
  the C library or the operating system that can fail (\<open>fwrite\<close>, \<open>fseeko\<close>,
  \<open>ftello\<close>, \<open>fflush\<close>, \<open>ftruncate\<close>, \<open>fopen\<close>, \<open>CALLOC\<close>, ...) takes the next
  entry of \<open>faults\<close>: \<open>True\<close> makes that call fail and leave the file as it was. An
  empty list means that no further call fails. \<open>heap_addr\<close> is the address of the
  block that \<open>CALLOC\<close> hands out for a chunk table (one chunk table exists at a
  time).
\<close>

record world =
  file_data :: bytes
  file_pos :: nat
  faults :: "bool list"
  heap_addr :: u64

definition next_fault :: "world \<Rightarrow> bool \<times> world" where
  "next_fault w =
     (case faults w of
        [] \<Rightarrow> (False, w)
      | f # fs \<Rightarrow> (f, w\<lparr>faults := fs\<rparr>))"

text \<open>
  Bytes \<open>buf\<close> stored at position \<open>p\<close>; a gap past the end reads as zero bytes.
  Storing no bytes changes nothing.
\<close>

definition store_at :: "nat \<Rightarrow> bytes \<Rightarrow> bytes \<Rightarrow> bytes" where
  "store_at p buf d =
     (if buf = [] then d
      else take p d @ replicate (p - length d) 0 @ buf @ drop (p + length buf) d)"

text \<open>
  \<open>fwrite(buf, 1, n, fp) == n\<close>. A request of no bytes returns 0 and so always
  compares equal.
\<close>

definition fwrite :: "bytes \<Rightarrow> world \<Rightarrow> bool \<times> world" where
  "fwrite buf w =
     (if buf = [] then (True, w)
      else
        let (failed, w1) = next_fault w in
        if failed then (False, w1)
        else (True, w1\<lparr>file_data := store_at (file_pos w1) buf (file_data w1),
                        file_pos := file_pos w1 + length buf\<rparr>))"

text \<open>\<open>fseeko(fp, off, SEEK_SET) == 0\<close> and \<open>fseeko(fp, 0, SEEK_END) == 0\<close>.\<close>

definition fseeko_set :: "nat \<Rightarrow> world \<Rightarrow> bool \<times> world" where
  "fseeko_set off w =
     (let (failed, w1) = next_fault w in
      if failed then (False, w1) else (True, w1\<lparr>file_pos := off\<rparr>))"

definition fseeko_end :: "world \<Rightarrow> bool \<times> world" where
  "fseeko_end w =
     (let (failed, w1) = next_fault w in
      if failed then (False, w1) else (True, w1\<lparr>file_pos := length (file_data w1)\<rparr>))"

text \<open>\<open>ftello(fp)\<close>: \<open>None\<close> is the result \<open>-1\<close>.\<close>

definition ftello :: "world \<Rightarrow> nat option \<times> world" where
  "ftello w =
     (let (failed, w1) = next_fault w in
      if failed then (None, w1) else (Some (file_pos w1), w1))"

text \<open>\<open>ftruncate\<close> and \<open>truncate\<close>: cut the file, or extend it with zero bytes.\<close>

definition truncate_to :: "nat \<Rightarrow> bytes \<Rightarrow> bytes" where
  "truncate_to n d = take n d @ replicate (n - length d) 0"

definition fflush_and_ftruncate :: "world \<Rightarrow> nat \<Rightarrow> ret \<times> world" where
  "fflush_and_ftruncate w sz =
     (let (flush_failed, w1) = next_fault w in
      if flush_failed then (Some WIMLIB_ERR_WRITE, w1)
      else
        let (trunc_failed, w2) = next_fault w1 in
        if trunc_failed then (Some WIMLIB_ERR_WRITE, w2)
        else (None, w2\<lparr>file_data := truncate_to sz (file_data w2)\<rparr>))"

section \<open>Resource entries and lookup table entries\<close>

text \<open>
  The flags of a resource entry are a bit mask over single-bit constants declared
  outside write.c; the mask is modelled as the set of the bits that are on.
\<close>

datatype reshdr_flag =
    WIM_RESHDR_FLAG_FREE
  | WIM_RESHDR_FLAG_METADATA
  | WIM_RESHDR_FLAG_COMPRESSED
  | WIM_RESHDR_FLAG_SPANNED

record resource_entry =
  offset :: u64
  size_e :: u64
  original_size :: u64
  flags :: "reshdr_flag set"

definition zero_entry :: resource_entry where
  "zero_entry = \<lparr>offset = 0, size_e = 0, original_size = 0, flags = {}\<rparr>"

datatype compression_type =
    WIMLIB_COMPRESSION_TYPE_NONE
  | WIMLIB_COMPRESSION_TYPE_LZX
  | WIMLIB_COMPRESSION_TYPE_XPRESS

datatype resource_location =
    RESOURCE_NONEXISTENT
  | RESOURCE_IN_WIM
  | RESOURCE_IN_FILE_ON_DISK
  | RESOURCE_IN_STAGING_FILE
  | RESOURCE_IN_ATTACHED_BUFFER

text \<open>
  \<open>struct wim_lookup_table_entry\<close>, the fields write.c reads or writes. \<open>wim\<close>
  identifies the \<open>WIMStruct\<close> the entry points to.
  \<open>ctype\<close> is what \<open>wim_resource_compression_type(lte)\<close> returns. \<open>source\<close> and
  \<open>raw_source\<close> are the bytes the stream's reader delivers: the uncompressed
  contents, and the stored (already encoded) form that a raw copy reads.
  \<open>file_on_disk_fp\<close> is whether the cached \<open>FILE *\<close> of an external file is open.
\<close>

record wim_lookup_table_entry =
  hash :: bytes
  resource_entry :: resource_entry
  output_resource_entry :: resource_entry
  resource_location :: resource_location
  wim :: nat
  refcnt :: nat
  out_refcnt :: nat
  ctype :: compression_type
  source :: bytes
  raw_source :: bytes
  file_on_disk_fp :: bool

text \<open>
  Modelled from the spec: the accessors \<open>wim_resource_size\<close>,
  \<open>wim_resource_compressed_size\<close> and \<open>wim_resource_chunks\<close> are declared in a header
  outside src/. The spec's data model gives \<open>size\<close> as the original (uncompressed) byte
  length, \<open>compressed_size\<close> as the on-disk size of the existing encoded form, and
  \<open>num_chunks = ceil(original_size / CHUNK_SIZE)\<close>, computed here as write.c computes
  it in \<open>begin_wim_resource_chunk_tab\<close>.
\<close>

definition wim_resource_size :: "wim_lookup_table_entry \<Rightarrow> u64" where
  "wim_resource_size lte = original_size (resource_entry lte)"

definition wim_resource_compressed_size :: "wim_lookup_table_entry \<Rightarrow> u64" where
  "wim_resource_compressed_size lte = size_e (resource_entry lte)"

definition wim_resource_chunks :: "wim_lookup_table_entry \<Rightarrow> u64" where
  "wim_resource_chunks lte =
     (wim_resource_size lte + WIM_CHUNK_SIZE - 1) div WIM_CHUNK_SIZE"

definition wim_resource_compression_type :: "wim_lookup_table_entry \<Rightarrow> compression_type" where
  "wim_resource_compression_type lte = ctype lte"

section \<open>The chunk table\<close>

text \<open>
  \<open>struct chunk_table\<close>. \<open>offsets\<close> holds the entries stored so far through
  \<open>cur_offset_p\<close>; the slots after them are still the zeroes of \<open>CALLOC\<close>.
\<close>

record chunk_table =
  file_offset :: nat
  num_chunks :: u64
  original_resource_size :: u64
  bytes_per_chunk_entry :: u64
  table_disk_size :: u64
  cur_offset :: u64
  offsets :: "u64 list"

text \<open>The first \<open>n\<close> bytes of a value in little-endian order.\<close>

definition le_bytes :: "nat \<Rightarrow> u64 \<Rightarrow> bytes" where
  "le_bytes n x = map (\<lambda>i. ucast (drop_bit (8 * i) x)) [0..<n]"

text \<open>The array \<open>offsets[num_chunks]\<close>: the stored entries, then zeroes.\<close>

definition offsets_array :: "chunk_table \<Rightarrow> u64 list" where
  "offsets_array tab =
     take (unat (num_chunks tab))
       (offsets tab @ replicate (unat (num_chunks tab) - length (offsets tab)) 0)"

text \<open>
  The bytes of the block that holds a chunk table, for a little-endian machine with
  64-bit \<open>off_t\<close>, \<open>u64\<close> and pointers: the six scalar fields in the order of the
  declaration, the pointer \<open>cur_offset_p\<close> (for a table allocated at \<open>addr\<close> it points
  to the array, 56 bytes into the block), and the array \<open>offsets\<close>. The block has
  \<open>sizeof(struct chunk_table) + num_chunks * sizeof(u64)\<close> bytes.
\<close>

definition chunk_table_image :: "chunk_table \<Rightarrow> u64 \<Rightarrow> bytes" where
  "chunk_table_image tab addr =
     le_bytes 8 (of_nat (file_offset tab)) @
     le_bytes 8 (num_chunks tab) @
     le_bytes 8 (original_resource_size tab) @
     le_bytes 8 (bytes_per_chunk_entry tab) @
     le_bytes 8 (table_disk_size tab) @
     le_bytes 8 (cur_offset tab) @
     le_bytes 8 (addr + 56 + 8 * of_nat (length (offsets tab))) @
     concat (map (le_bytes 8) (offsets_array tab))"

text \<open>
  \<open>begin_wim_resource_chunk_tab\<close>. The table's space in the file is reserved by
  \<open>fwrite(chunk_tab, 1, chunk_tab->table_disk_size, out_fp)\<close>, which writes the
  first \<open>table_disk_size\<close> bytes of the block itself. When \<open>table_disk_size\<close> is more
  than the block holds (the case \<open>num_chunks = 0\<close>, where the subtraction wraps),
  the write cannot be completed from the block and the short count is a write
  error; what such a call leaves in the file is not modelled.
\<close>

definition begin_wim_resource_chunk_tab ::
  "wim_lookup_table_entry \<Rightarrow> world \<Rightarrow> nat \<Rightarrow> ret \<times> chunk_table option \<times> world" where
  "begin_wim_resource_chunk_tab lte w foff =
     (let sz = wim_resource_size lte;
          n = (sz + WIM_CHUNK_SIZE - 1) div WIM_CHUNK_SIZE;
          (alloc_failed, w1) = next_fault w
      in
        if alloc_failed then (Some WIMLIB_ERR_NOMEM, None, w1)
        else
          let bpe = (if sz \<ge> 2 ^ 32 then 8 else 4);
              tab = \<lparr>file_offset = foff,
                     num_chunks = n,
                     original_resource_size = sz,
                     bytes_per_chunk_entry = bpe,
                     table_disk_size = bpe * (n - 1),
                     cur_offset = 0,
                     offsets = []\<rparr>;
              block = chunk_table_image tab (heap_addr w1)
          in
            if unat (table_disk_size tab) > length block
            then (Some WIMLIB_ERR_WRITE, Some tab, w1)
            else
              let (written, w2) = fwrite (take (unat (table_disk_size tab)) block) w1 in
              if \<not> written then (Some WIMLIB_ERR_WRITE, Some tab, w2)
              else (None, Some tab, w2))"

text \<open>
  The two statements that enter a chunk into the table, in \<open>write_wim_resource_chunk\<close>
  and in \<open>write_wim_chunks\<close>:
  \<open>*chunk_tab->cur_offset_p++ = chunk_tab->cur_offset; chunk_tab->cur_offset += size\<close>.
\<close>

definition record_chunk :: "chunk_table \<Rightarrow> u64 \<Rightarrow> chunk_table" where
  "record_chunk tab csize =
     tab\<lparr>offsets := offsets tab @ [cur_offset tab],
         cur_offset := cur_offset tab + csize\<rparr>"

text \<open>
  \<open>finish_wim_resource_chunk_tab\<close>. The whole array is converted in place to
  little-endian entries of \<open>bytes_per_chunk_entry\<close> bytes (entry \<open>i\<close> of the narrow
  form lies before entry \<open>i\<close> of the wide form, so no entry is read after it was
  overwritten); \<open>table_disk_size\<close> bytes are then written, starting one entry into the
  converted array. The third component is \<open>*compressed_size_p\<close>, assigned on success
  only.
\<close>

definition finish_wim_resource_chunk_tab ::
  "chunk_table \<Rightarrow> world \<Rightarrow> ret \<times> u64 option \<times> world" where
  "finish_wim_resource_chunk_tab tab w =
     (let (sought, w1) = fseeko_set (file_offset tab) w in
      if \<not> sought then (Some WIMLIB_ERR_WRITE, None, w1)
      else
        let converted =
              concat (map (le_bytes (unat (bytes_per_chunk_entry tab))) (offsets_array tab));
            (written, w2) =
              fwrite (take (unat (table_disk_size tab))
                        (drop (unat (bytes_per_chunk_entry tab)) converted)) w1
        in
          if \<not> written then (Some WIMLIB_ERR_WRITE, None, w2)
          else
            let (at_end, w3) = fseeko_end w2 in
            if \<not> at_end then (Some WIMLIB_ERR_WRITE, None, w3)
            else (None, Some (cur_offset tab + table_disk_size tab), w3))"

section \<open>Collaborators outside write.c\<close>

text \<open>
  The digest and the two compressors are defined outside src/ and are parameters of
  the model. A compressor returns \<open>None\<close> for the nonzero result "could not be
  compressed to any smaller than the chunk size". \<open>nprocs\<close> is what
  \<open>get_default_num_threads\<close> returns. \<open>schedule\<close> is the order in which the
  compressor threads hand messages back, and \<open>max_rounds\<close> the number of rounds of
  the pipeline's main loop that the model follows (see below).
\<close>

record env =
  sha1 :: "bytes \<Rightarrow> bytes"
  lzx_compress :: "bytes \<Rightarrow> bytes option"
  xpress_compress :: "bytes \<Rightarrow> bytes option"
  nprocs :: int
  schedule :: "nat list"
  max_rounds :: nat

definition get_compress_func :: "env \<Rightarrow> compression_type \<Rightarrow> bytes \<Rightarrow> bytes option" where
  "get_compress_func e out_ctype =
     (if out_ctype = WIMLIB_COMPRESSION_TYPE_LZX then lzx_compress e
      else xpress_compress e)"

text \<open>
  A digest context is the bytes fed to it so far: \<open>sha1_init\<close> empties it,
  \<open>sha1_update\<close> appends, \<open>sha1_final\<close> applies the digest function.
\<close>

definition sha1_init :: bytes where
  "sha1_init = []"

definition sha1_update :: "bytes \<Rightarrow> bytes \<Rightarrow> bytes" where
  "sha1_update ctx buf = ctx @ buf"

definition sha1_final :: "env \<Rightarrow> bytes \<Rightarrow> bytes" where
  "sha1_final e ctx = sha1 e ctx"

definition SHA1_HASH_SIZE :: nat where
  "SHA1_HASH_SIZE = 20"

definition is_zero_hash :: "bytes \<Rightarrow> bool" where
  "is_zero_hash h = (h = replicate SHA1_HASH_SIZE 0)"

definition hashes_equal :: "bytes \<Rightarrow> bytes \<Rightarrow> bool" where
  "hashes_equal h1 h2 = (h1 = h2)"

text \<open>The two flags of \<open>write_wim_resource\<close>'s \<open>flags\<close> argument.\<close>

datatype resource_flag = WIMLIB_RESOURCE_FLAG_RAW | WIMLIB_RESOURCE_FLAG_RECOMPRESS

text \<open>
  Modelled from the spec: \<open>read_wim_resource\<close> is defined outside src/. The spec's
  reader contract is that a read returns exactly the requested number of bytes from
  the requested offset, or fails with a read error. With the raw flag the stored
  (encoded) form is read.
\<close>

definition read_wim_resource ::
  "wim_lookup_table_entry \<Rightarrow> nat \<Rightarrow> nat \<Rightarrow> resource_flag set \<Rightarrow> ret \<times> bytes" where
  "read_wim_resource lte n off fl =
     (let src = (if WIMLIB_RESOURCE_FLAG_RAW \<in> fl then raw_source lte else source lte) in
      if off + n \<le> length src then (None, take n (drop off src))
      else (Some WIMLIB_ERR_READ, []))"

section \<open>Writing one resource\<close>

text \<open>
  \<open>prepare_resource_for_read\<close> and \<open>end_wim_resource_read\<close>, for a build without the
  NTFS-3g and Win32 back ends: only a file on disk has a handle to cache.
\<close>

definition prepare_resource_for_read ::
  "wim_lookup_table_entry \<Rightarrow> world \<Rightarrow> ret \<times> wim_lookup_table_entry \<times> world" where
  "prepare_resource_for_read lte w =
     (if resource_location lte = RESOURCE_IN_FILE_ON_DISK \<and> \<not> file_on_disk_fp lte then
        let (open_failed, w1) = next_fault w in
        if open_failed then (Some WIMLIB_ERR_OPEN, lte, w1)
        else (None, lte\<lparr>file_on_disk_fp := True\<rparr>, w1)
      else (None, lte, w))"

definition end_wim_resource_read :: "wim_lookup_table_entry \<Rightarrow> wim_lookup_table_entry" where
  "end_wim_resource_read lte =
     (if resource_location lte = RESOURCE_IN_FILE_ON_DISK \<and> file_on_disk_fp lte
      then lte\<lparr>file_on_disk_fp := False\<rparr> else lte)"

text \<open>
  \<open>write_wim_resource_chunk\<close>: with a chunk table the chunk is compressed (or kept
  as it is when the compressor gives up) and entered into the table; without one it
  is written as it is.
\<close>

definition write_wim_resource_chunk ::
  "bytes \<Rightarrow> (bytes \<Rightarrow> bytes option) \<Rightarrow> chunk_table option \<Rightarrow> world
     \<Rightarrow> ret \<times> chunk_table option \<times> world" where
  "write_wim_resource_chunk chunk compress chunk_tab w =
     (let (out_chunk, chunk_tab1) =
            (case chunk_tab of
               Some tab \<Rightarrow>
                 let out = (case compress chunk of Some c \<Rightarrow> c | None \<Rightarrow> chunk)
                 in (out, Some (record_chunk tab (of_nat (length out))))
             | None \<Rightarrow> (chunk, None));
          (written, w1) = fwrite out_chunk w
      in if \<not> written then (Some WIMLIB_ERR_WRITE, chunk_tab1, w1)
         else (None, chunk_tab1, w1))"

text \<open>
  The \<open>do ... while (bytes_remaining)\<close> loop of \<open>write_wim_resource\<close>. The result
  carries the digest context, the chunk table and the file as the loop left them.
\<close>

function write_resource_loop ::
  "wim_lookup_table_entry \<Rightarrow> resource_flag set \<Rightarrow> (bytes \<Rightarrow> bytes option) \<Rightarrow> u64 \<Rightarrow> u64
     \<Rightarrow> bytes \<Rightarrow> chunk_table option \<Rightarrow> world
     \<Rightarrow> ret \<times> bytes \<times> chunk_table option \<times> world" where
  "write_resource_loop lte fl compress bytes_remaining off ctx chunk_tab w =
     (let to_read = min bytes_remaining WIM_CHUNK_SIZE;
          (r, buf) = read_wim_resource lte (unat to_read) (unat off) fl
      in
        if r \<noteq> None then (r, ctx, chunk_tab, w)
        else
          let ctx1 = (if WIMLIB_RESOURCE_FLAG_RAW \<notin> fl then sha1_update ctx buf else ctx);
              (r2, chunk_tab1, w1) = write_wim_resource_chunk buf compress chunk_tab w
          in
            if r2 \<noteq> None then (r2, ctx1, chunk_tab1, w1)
            else if bytes_remaining - to_read \<noteq> 0
            then write_resource_loop lte fl compress (bytes_remaining - to_read)
                   (off + to_read) ctx1 chunk_tab1 w1
            else (None, ctx1, chunk_tab1, w1))"
  by pat_completeness auto

lemma loop_decreases:
  fixes br :: u64
  assumes "br - min br WIM_CHUNK_SIZE \<noteq> 0"
  shows "unat (br - min br WIM_CHUNK_SIZE) < unat br"
proof -
  have ne: "br \<noteq> 0" using assms by auto
  have m: "min br WIM_CHUNK_SIZE \<le> br" by simp
  have "min br WIM_CHUNK_SIZE \<noteq> 0" using ne by (auto simp: min_def WIM_CHUNK_SIZE_def)
  then have "0 < unat (min br WIM_CHUNK_SIZE)" by (simp add: unat_gt_0)
  moreover have "unat (br - min br WIM_CHUNK_SIZE) = unat br - unat (min br WIM_CHUNK_SIZE)"
    using m by (simp add: unat_sub)
  moreover have "0 < unat br" using ne by (simp add: unat_gt_0)
  ultimately show ?thesis by simp
qed

termination write_resource_loop
  by (relation "measure (\<lambda>(lte, fl, compress, br, off, ctx, tab, w). unat br)")
     (auto intro: loop_decreases)

text \<open>
  The digest check at the end of \<open>write_wim_resource\<close>: an all-zero hash in the
  lookup table entry is replaced by the digest just computed; any other hash must
  equal it.
\<close>

definition verify_or_adopt_hash ::
  "env \<Rightarrow> bytes \<Rightarrow> wim_lookup_table_entry \<Rightarrow> ret \<times> wim_lookup_table_entry" where
  "verify_or_adopt_hash e ctx lte =
     (let md = sha1_final e ctx in
      if is_zero_hash (hash lte) then (None, lte\<lparr>hash := md\<rparr>)
      else if \<not> hashes_equal md (hash lte) then (Some WIMLIB_ERR_INVALID_RESOURCE_HASH, lte)
      else (None, lte))"

text \<open>
  The resource entry stored through \<open>out_res_entry\<close> when the resource stays as
  written.
\<close>

definition filled_entry ::
  "wim_lookup_table_entry \<Rightarrow> compression_type \<Rightarrow> nat \<Rightarrow> u64 \<Rightarrow> resource_entry" where
  "filled_entry lte out_ctype foff new_compressed_size =
     \<lparr>offset = of_nat foff,
      size_e = new_compressed_size,
      original_size = wim_resource_size lte,
      flags = (flags (resource_entry lte) - {WIM_RESHDR_FLAG_COMPRESSED})
              \<union> (if out_ctype \<noteq> WIMLIB_COMPRESSION_TYPE_NONE
                 then {WIM_RESHDR_FLAG_COMPRESSED} else {})\<rparr>"

text \<open>
  The middle of \<open>write_wim_resource\<close>, from the allocation of the chunk table to the
  computation of \<open>new_compressed_size\<close>: the table is begun for a compressed,
  non-raw write, the reader is prepared, the loop copies the chunks, and the table is
  finished. The result is the return code, the lookup table entry, the digest
  context, \<open>new_compressed_size\<close> and the file. On an error the entry is returned as
  the function's exit leaves it: the two early exits (\<open>goto out\<close>) skip
  \<open>end_wim_resource_read\<close>, the later ones (\<open>goto out_fclose\<close>) run it.

  Where \<open>chunk_tab\<close> would be a null pointer at the call of
  \<open>finish_wim_resource_chunk_tab\<close> the model returns a write error; the branch is not
  reached, since the table was allocated before the loop.
\<close>

definition write_resource_body ::
  "env \<Rightarrow> wim_lookup_table_entry \<Rightarrow> world \<Rightarrow> nat \<Rightarrow> compression_type \<Rightarrow> bool
     \<Rightarrow> resource_flag set \<Rightarrow> u64
     \<Rightarrow> ret \<times> wim_lookup_table_entry \<times> bytes \<times> u64 \<times> world" where
  "write_resource_body e lte w0 foff out_ctype raw fl1 bytes_remaining =
     (let (r1, chunk_tab, w1) =
            (if out_ctype \<noteq> WIMLIB_COMPRESSION_TYPE_NONE \<and> \<not> raw
             then begin_wim_resource_chunk_tab lte w0 foff
             else (None, None, w0))
      in
        if r1 \<noteq> None then (r1, lte, sha1_init, 0, w1)
        else
          let (r2, lte2, w2) = prepare_resource_for_read lte w1 in
          if r2 \<noteq> None then (r2, lte2, sha1_init, 0, w2)
          else
            let (r3, ctx, chunk_tab3, w3) =
                  write_resource_loop lte2 fl1 (get_compress_func e out_ctype)
                    bytes_remaining 0 sha1_init chunk_tab w2
            in
              if r3 \<noteq> None then (r3, end_wim_resource_read lte2, ctx, 0, w3)
              else if raw then (None, lte2, ctx, wim_resource_compressed_size lte, w3)
              else if out_ctype = WIMLIB_COMPRESSION_TYPE_NONE
              then (None, lte2, ctx, wim_resource_size lte, w3)
              else
                (case chunk_tab3 of
                   None \<Rightarrow> (Some WIMLIB_ERR_WRITE, end_wim_resource_read lte2, ctx, 0, w3)
                 | Some tab \<Rightarrow>
                     let (r4, new_compressed_size, w4) = finish_wim_resource_chunk_tab tab w3
                     in (case new_compressed_size of
                           None \<Rightarrow> (r4, end_wim_resource_read lte2, ctx, 0, w4)
                         | Some csize \<Rightarrow> (None, lte2, ctx, csize, w4))))"

text \<open>
  \<open>write_uncompressed_resource_and_truncate\<close> and \<open>write_wim_resource\<close> call each
  other. \<open>out_res_entry\<close> may be a null pointer (\<open>None\<close>); the last component of the
  result is what it points to afterwards. The lookup table entry is returned as the
  call leaves it (hash, cached file handle).
\<close>

function write_uncompressed_resource_and_truncate ::
  "env \<Rightarrow> wim_lookup_table_entry \<Rightarrow> world \<Rightarrow> nat \<Rightarrow> resource_entry option
     \<Rightarrow> ret \<times> wim_lookup_table_entry \<times> world \<times> resource_entry option"
and write_wim_resource ::
  "env \<Rightarrow> wim_lookup_table_entry \<Rightarrow> world \<Rightarrow> compression_type \<Rightarrow> resource_entry option
     \<Rightarrow> resource_flag set
     \<Rightarrow> ret \<times> wim_lookup_table_entry \<times> world \<times> resource_entry option" where
  "write_uncompressed_resource_and_truncate e lte w foff out_res_entry =
     (let (sought, w1) = fseeko_set foff w in
      if \<not> sought then (Some WIMLIB_ERR_WRITE, lte, w1, out_res_entry)
      else
        let (r, lte1, w2, entry1) =
              write_wim_resource e lte w1 WIMLIB_COMPRESSION_TYPE_NONE out_res_entry {}
        in
          if r \<noteq> None then (r, lte1, w2, entry1)
          else
            let (r2, w3) = fflush_and_ftruncate w2 (foff + unat (wim_resource_size lte1))
            in (r2, lte1, w3, entry1))"
| "write_wim_resource e lte w out_ctype out_res_entry fl =
     (let original_size = wim_resource_size lte;
          old_compressed_size = wim_resource_compressed_size lte;
          (pos, w0) = ftello w
      in
        case pos of
          None \<Rightarrow> (Some WIMLIB_ERR_WRITE, lte, w0, out_res_entry)
        | Some foff \<Rightarrow>
            let raw = (wim_resource_compression_type lte = out_ctype
                       \<and> out_ctype \<noteq> WIMLIB_COMPRESSION_TYPE_NONE
                       \<and> WIMLIB_RESOURCE_FLAG_RECOMPRESS \<notin> fl);
                fl1 = (if raw then insert WIMLIB_RESOURCE_FLAG_RAW fl
                       else fl - {WIMLIB_RESOURCE_FLAG_RAW});
                bytes_remaining = (if raw then old_compressed_size else original_size)
            in
              if bytes_remaining = 0 then (None, lte, w0, out_res_entry)
              else
                let (r, lte2, ctx, new_compressed_size, w4) =
                      write_resource_body e lte w0 foff out_ctype raw fl1 bytes_remaining
                in
                  if r \<noteq> None then (r, lte2, w4, out_res_entry)
                  else
                    let (r5, lte5) =
                          (if \<not> raw then verify_or_adopt_hash e ctx lte2 else (None, lte2))
                    in
                      if r5 \<noteq> None
                      then (r5, end_wim_resource_read lte5, w4, out_res_entry)
                      else if \<not> raw \<and> new_compressed_size \<ge> original_size
                              \<and> out_ctype \<noteq> WIMLIB_COMPRESSION_TYPE_NONE
                      then
                        let (r6, lte6, w6, entry6) =
                              write_uncompressed_resource_and_truncate
                                e lte5 w4 foff out_res_entry
                        in (r6, end_wim_resource_read lte6, w6, entry6)
                      else
                        (None, end_wim_resource_read lte5, w4,
                         (case out_res_entry of
                            None \<Rightarrow> None
                          | Some _ \<Rightarrow>
                              Some (filled_entry lte5 out_ctype foff new_compressed_size))))"
  by pat_completeness auto

termination
  by (relation "measure (\<lambda>x. case x of
          Inl _ \<Rightarrow> 1
        | Inr (e, lte, w, out_ctype, entry, fl) \<Rightarrow>
            (if out_ctype = WIMLIB_COMPRESSION_TYPE_NONE then 0 else 2))")
     auto

declare write_resource_loop.simps [simp del]
declare write_uncompressed_resource_and_truncate.simps [simp del]
declare write_wim_resource.simps [simp del]

section \<open>Writing a list of streams with one thread\<close>

text \<open>
  The streams of a list are the objects \<open>ltes\<close>; the list itself (linked through
  \<open>staging_list\<close>) is a list of indices into them. Progress reporting is not modelled.

  One call of the loop body of \<open>do_write_stream_list\<close>: the resource entry is written
  through \<open>&lte->output_resource_entry\<close>, a field of the entry itself.
\<close>

definition store_entry ::
  "wim_lookup_table_entry \<Rightarrow> resource_entry option \<Rightarrow> wim_lookup_table_entry" where
  "store_entry lte out_res_entry =
     (case out_res_entry of
        None \<Rightarrow> lte
      | Some ent \<Rightarrow> lte\<lparr>output_resource_entry := ent\<rparr>)"

fun do_write_stream_list ::
  "env \<Rightarrow> wim_lookup_table_entry list \<Rightarrow> nat list \<Rightarrow> world \<Rightarrow> compression_type
     \<Rightarrow> resource_flag set
     \<Rightarrow> ret \<times> wim_lookup_table_entry list \<times> nat list \<times> world" where
  "do_write_stream_list e ltes [] w out_ctype fl = (None, ltes, [], w)"
| "do_write_stream_list e ltes (i # rest) w out_ctype fl =
     (let lte = ltes ! i;
          (r, lte1, w1, ent) =
            write_wim_resource e lte w out_ctype (Some (output_resource_entry lte)) fl;
          ltes1 = ltes[i := store_entry lte1 ent]
      in
        if r \<noteq> None then (r, ltes1, i # rest, w1)
        else do_write_stream_list e ltes1 rest w1 out_ctype fl)"

text \<open>
  The flags of \<open>wimlib_write\<close> and \<open>wimlib_overwrite\<close>: a bit mask over constants
  declared outside src/, modelled as the set of the bits that are on. The first six
  are the public ones (the spec's list), the last three are set by write.c itself.
\<close>

datatype write_flag =
    WIMLIB_WRITE_FLAG_CHECK_INTEGRITY
  | WIMLIB_WRITE_FLAG_SHOW_PROGRESS
  | WIMLIB_WRITE_FLAG_RECOMPRESS
  | WIMLIB_WRITE_FLAG_FSYNC
  | WIMLIB_WRITE_FLAG_SOFT_DELETE
  | WIMLIB_WRITE_FLAG_REBUILD
  | WIMLIB_WRITE_FLAG_NO_LOOKUP_TABLE
  | WIMLIB_WRITE_FLAG_REUSE_INTEGRITY_TABLE
  | WIMLIB_WRITE_FLAG_CHECKPOINT_AFTER_XML

definition WIMLIB_WRITE_MASK_PUBLIC :: "write_flag set" where
  "WIMLIB_WRITE_MASK_PUBLIC =
     {WIMLIB_WRITE_FLAG_CHECK_INTEGRITY, WIMLIB_WRITE_FLAG_SHOW_PROGRESS,
      WIMLIB_WRITE_FLAG_RECOMPRESS, WIMLIB_WRITE_FLAG_FSYNC,
      WIMLIB_WRITE_FLAG_SOFT_DELETE, WIMLIB_WRITE_FLAG_REBUILD}"

definition write_stream_list_serial ::
  "env \<Rightarrow> wim_lookup_table_entry list \<Rightarrow> nat list \<Rightarrow> world \<Rightarrow> compression_type
     \<Rightarrow> write_flag set
     \<Rightarrow> ret \<times> wim_lookup_table_entry list \<times> world" where
  "write_stream_list_serial e ltes strms w out_ctype write_flags =
     (let write_resource_flags =
            (if WIMLIB_WRITE_FLAG_RECOMPRESS \<in> write_flags
             then {WIMLIB_RESOURCE_FLAG_RECOMPRESS} else {});
          (r, ltes1, rest, w1) =
            do_write_stream_list e ltes strms w out_ctype write_resource_flags
      in (r, ltes1, w1))"

section \<open>The parallel pipeline: the main thread\<close>

text \<open>
  \<open>struct message\<close>: up to \<open>MAX_CHUNKS_PER_MSG\<close> chunks of one stream. The buffers
  hold exactly \<open>msg_num_chunks\<close> chunks; \<open>out_compressed_chunks\<close> are the bytes a
  compressor thread selected for output, with their sizes.
\<close>

record message =
  msg_lte :: nat
  uncompressed_chunks :: "bytes list"
  out_compressed_chunks :: "bytes list"
  msg_num_chunks :: nat
  complete :: bool
  begin_chunk :: u64

definition MAX_CHUNKS_PER_MSG :: u64 where
  "MAX_CHUNKS_PER_MSG = 2"

text \<open>\<open>compress_chunks\<close>, run by a compressor thread on a message.\<close>

definition compress_chunks :: "message \<Rightarrow> (bytes \<Rightarrow> bytes option) \<Rightarrow> message" where
  "compress_chunks msg compress =
     msg\<lparr>out_compressed_chunks :=
           map (\<lambda>chunk. case compress chunk of Some c \<Rightarrow> c | None \<Rightarrow> chunk)
             (uncompressed_chunks msg)\<rparr>"

text \<open>\<open>write_wim_chunks\<close>: the output chunks of a message, one after the other.\<close>

fun write_wim_chunks ::
  "bytes list \<Rightarrow> chunk_table \<Rightarrow> world \<Rightarrow> ret \<times> chunk_table \<times> world" where
  "write_wim_chunks [] tab w = (None, tab, w)"
| "write_wim_chunks (chunk # chunks) tab w =
     (let (written, w1) = fwrite chunk w in
      if \<not> written then (Some WIMLIB_ERR_WRITE, tab, w1)
      else write_wim_chunks chunks (record_chunk tab (of_nat (length chunk))) w1)"

text \<open>
  The variables of \<open>main_writer_thread_proc\<close>. \<open>streams\<close> are the lookup table
  entries that \<open>stream_list\<close>, \<open>my_resources\<close> and \<open>outstanding_resources\<close> link; a
  list holds indices into \<open>streams\<close>, and \<open>next_resource\<close> is a position in
  \<open>stream_list\<close>. Each entry of \<open>outstanding_resources\<close> carries the stream's
  \<open>msg_list\<close>. Only the number of \<open>available_msgs\<close> matters: a message is filled anew
  whenever it is taken. \<open>out_fp\<close> is the output file.

  \<open>sched\<close> decides which of the messages that are with the compressor threads
  comes back at each \<open>shared_queue_get\<close>; an empty schedule returns them in the
  order they were sent.
\<close>

record writer =
  streams :: "wim_lookup_table_entry list"
  stream_list :: "nat list"
  num_messages :: nat
  available_msgs :: nat
  outstanding_resources :: "(nat \<times> message list) list"
  next_resource :: nat
  next_chunk :: u64
  next_num_chunks :: u64
  next_sha_ctx :: bytes
  my_resources :: "nat list"
  cur_lte :: "nat option"
  next_lte :: "nat option"
  cur_chunk_tab :: "chunk_table option"
  out_fp :: world
  sched :: "nat list"

definition msg_list :: "writer \<Rightarrow> nat \<Rightarrow> message list" where
  "msg_list st i =
     (case map_of (outstanding_resources st) i of None \<Rightarrow> [] | Some msgs \<Rightarrow> msgs)"

definition pending_msgs :: "writer \<Rightarrow> nat" where
  "pending_msgs st = sum_list (map (\<lambda>p. length (snd p)) (outstanding_resources st))"

text \<open>
  Modelled from the spec: the macro \<open>MODULO_NONZERO\<close> is declared outside src/. The
  spec's container contract has every chunk but the last exactly \<open>CHUNK_SIZE\<close> bytes
  long, so the last chunk has the remainder of the size, or a whole chunk when the
  remainder is zero.
\<close>

definition MODULO_NONZERO :: "u64 \<Rightarrow> u64 \<Rightarrow> u64" where
  "MODULO_NONZERO x y = (if x mod y = 0 then y else x mod y)"

text \<open>
  The digest check of the stream whose chunks have all been read (the block under
  \<open>if (next_lte != NULL)\<close>): the reader is closed, and the digest must equal the hash
  of the lookup table entry.
\<close>

definition finish_next_stream :: "env \<Rightarrow> writer \<Rightarrow> ret \<times> writer" where
  "finish_next_stream e st =
     (case next_lte st of
        None \<Rightarrow> (None, st)
      | Some i \<Rightarrow>
          let lte = end_wim_resource_read (streams st ! i);
              st1 = st\<lparr>streams := (streams st)[i := lte]\<rparr>;
              next_hash = sha1_final e (next_sha_ctx st)
          in if \<not> hashes_equal (hash lte) next_hash
             then (Some WIMLIB_ERR_INVALID_RESOURCE_HASH, st1)
             else (None, st1))"

text \<open>
  The inner \<open>while (1)\<close> that advances to the next stream that needs compression;
  streams that do not are moved to \<open>my_resources\<close>.
\<close>

function advance_next_resource ::
  "compression_type \<Rightarrow> write_flag set \<Rightarrow> writer \<Rightarrow> ret \<times> writer" where
  "advance_next_resource out_ctype write_flags st =
     (if next_resource st \<ge> length (stream_list st) then (None, st\<lparr>next_lte := None\<rparr>)
      else
        let i = stream_list st ! next_resource st;
            lte = streams st ! i;
            st1 = st\<lparr>next_lte := Some i, next_resource := Suc (next_resource st)\<rparr>
        in
          if (WIMLIB_WRITE_FLAG_RECOMPRESS \<notin> write_flags
              \<and> wim_resource_compression_type lte = out_ctype)
             \<or> wim_resource_size lte = 0
          then advance_next_resource out_ctype write_flags
                 (st1\<lparr>my_resources := my_resources st1 @ [i]\<rparr>)
          else
            let (r, lte1, w1) = prepare_resource_for_read lte (out_fp st1);
                st2 = st1\<lparr>outstanding_resources := outstanding_resources st1 @ [(i, [])],
                          next_chunk := 0,
                          next_num_chunks := wim_resource_chunks lte,
                          next_sha_ctx := sha1_init,
                          streams := (streams st1)[i := lte1],
                          out_fp := w1\<rparr>
            in
              if r \<noteq> None then (r, st2)
              else (None, st2\<lparr>cur_lte := (case cur_lte st2 of
                                              None \<Rightarrow> Some i
                                            | Some c \<Rightarrow> Some c)\<rparr>))"
  by pat_completeness auto

termination
  by (relation "measure (\<lambda>(out_ctype, write_flags, st).
        length (stream_list st) - next_resource st)") auto

declare advance_next_resource.simps [simp del]

text \<open>
  The \<open>for\<close> loop that reads the chunks of one message. \<open>sz\<close> is the variable \<open>size\<close>,
  which keeps its value from one chunk to the next.
\<close>

fun read_msg_chunks ::
  "nat \<Rightarrow> wim_lookup_table_entry \<Rightarrow> u64 \<Rightarrow> u64 \<Rightarrow> u64 \<Rightarrow> bytes
     \<Rightarrow> ret \<times> bytes list \<times> u64 \<times> bytes" where
  "read_msg_chunks 0 lte sz nchunk nnum ctx = (None, [], nchunk, ctx)"
| "read_msg_chunks (Suc k) lte sz nchunk nnum ctx =
     (let sz1 = (if nchunk = nnum - 1
                 then MODULO_NONZERO (wim_resource_size lte) WIM_CHUNK_SIZE else sz);
          (r, buf) = read_wim_resource lte (unat sz1) (unat (nchunk * WIM_CHUNK_SIZE)) {}
      in
        if r \<noteq> None then (r, [], nchunk, ctx)
        else
          let (r1, bufs, nchunk1, ctx1) =
                read_msg_chunks k lte sz1 (nchunk + 1) nnum (sha1_update ctx buf)
          in (r1, buf # bufs, nchunk1, ctx1))"

text \<open>
  Taking a message from \<open>available_msgs\<close>, filling it and sending it off. On a read
  error the message is neither in a list nor with a compressor thread.
\<close>

definition send_message :: "writer \<Rightarrow> ret \<times> writer" where
  "send_message st =
     (case next_lte st of
        None \<Rightarrow> (None, st)
      | Some i \<Rightarrow>
          let n = unat (min (next_num_chunks st - next_chunk st) MAX_CHUNKS_PER_MSG);
              (r, bufs, nchunk1, ctx1) =
                read_msg_chunks n (streams st ! i) WIM_CHUNK_SIZE (next_chunk st)
                  (next_num_chunks st) (next_sha_ctx st);
              msg = \<lparr>msg_lte = i, uncompressed_chunks = bufs, out_compressed_chunks = [],
                     msg_num_chunks = n, complete = False, begin_chunk = next_chunk st\<rparr>;
              st1 = st\<lparr>available_msgs := available_msgs st - 1,
                       next_chunk := nchunk1, next_sha_ctx := ctx1\<rparr>
          in
            if r \<noteq> None then (r, st1)
            else (None, st1\<lparr>outstanding_resources :=
                               AList.update i (msg_list st1 i @ [msg])
                                 (outstanding_resources st1)\<rparr>))"

lemma advance_next_resource_available:
  "available_msgs (snd (advance_next_resource out_ctype write_flags st)) = available_msgs st"
proof (induction out_ctype write_flags st rule: advance_next_resource.induct)
  case (1 out_ctype write_flags st)
  show ?case
  proof (cases "next_resource st \<ge> length (stream_list st)")
    case True
    then show ?thesis by (subst advance_next_resource.simps) simp
  next
    case False
    let ?i = "stream_list st ! next_resource st"
    let ?lte = "streams st ! ?i"
    let ?st1 = "st\<lparr>next_lte := Some ?i, next_resource := Suc (next_resource st)\<rparr>"
    show ?thesis
    proof (cases "(WIMLIB_WRITE_FLAG_RECOMPRESS \<notin> write_flags
              \<and> wim_resource_compression_type ?lte = out_ctype)
             \<or> wim_resource_size ?lte = 0")
      case True
      from 1 [OF False refl refl refl True]
      have "available_msgs (snd (advance_next_resource out_ctype write_flags
              (?st1\<lparr>my_resources := my_resources ?st1 @ [?i]\<rparr>))) = available_msgs st"
        by simp
      with False True show ?thesis
        by (subst advance_next_resource.simps) (simp add: Let_def)
    next
      case no: False
      with False show ?thesis
        by (subst advance_next_resource.simps)
           (auto simp: Let_def split: prod.splits)
    qed
  qed
qed

lemma finish_next_stream_available:
  "available_msgs (snd (finish_next_stream e st)) = available_msgs st"
  by (simp add: finish_next_stream_def Let_def split: option.splits)

lemma send_message_available:
  "next_lte st \<noteq> None \<Longrightarrow> available_msgs (snd (send_message st)) = available_msgs st - 1"
  by (auto simp: send_message_def Let_def split: option.splits prod.splits)

text \<open>
  The first half of the main loop, \<open>while (!list_empty(&available_msgs))\<close>: chunks
  are sent to the compressor threads until no message is left or no stream is left.
  An error is the \<open>goto out\<close> of the source.
\<close>

function dispatch ::
  "env \<Rightarrow> compression_type \<Rightarrow> write_flag set \<Rightarrow> writer \<Rightarrow> ret \<times> writer" where
  "dispatch e out_ctype write_flags st =
     (if available_msgs st = 0 then (None, st)
      else
        let (r1, st1) =
              (if next_chunk st = next_num_chunks st
               then
                 let (r, s1) = finish_next_stream e st in
                 if r \<noteq> None then (r, s1)
                 else advance_next_resource out_ctype write_flags s1
               else (None, st))
        in
          if r1 \<noteq> None then (r1, st1)
          else if next_lte st1 = None then (None, st1)
          else
            let (r2, st2) = send_message st1 in
            if r2 \<noteq> None then (r2, st2)
            else dispatch e out_ctype write_flags st2)"
  by pat_completeness auto

termination
proof (relation "measure (\<lambda>(e, out_ctype, write_flags, st). available_msgs st)", goal_cases)
  case 1
  show ?case by simp
next
  case (2 e out_ctype write_flags st x r1 st1 x2 r2 st2)
  have a1: "available_msgs st1 = available_msgs st"
  proof (cases "next_chunk st = next_num_chunks st")
    case True
    obtain r s1 where f: "finish_next_stream e st = (r, s1)" by (cases "finish_next_stream e st")
    have s1: "available_msgs s1 = available_msgs st"
      using finish_next_stream_available [of e st] f by simp
    show ?thesis
      using 2 True f s1 advance_next_resource_available [of out_ctype write_flags s1]
      by (auto split: if_splits) (metis snd_conv)
  next
    case False
    with 2 show ?thesis by simp
  qed
  have "st2 = snd (send_message st1)"
    using 2 by (metis snd_conv)
  then have "available_msgs st2 = available_msgs st1 - 1"
    using 2 send_message_available [of st1] by simp
  with a1 2 show ?case by simp
qed

declare dispatch.simps [simp del]

text \<open>
  \<open>shared_queue_get(compressed_res_queue)\<close> followed by \<open>msg->complete = true\<close>. The
  messages that can come back are those sent and not yet returned; a compressor
  thread has run \<open>compress_chunks\<close> on the one that does. With no such message the
  call blocks for ever (\<open>None\<close>).
\<close>

definition in_flight :: "writer \<Rightarrow> (nat \<times> nat) list" where
  "in_flight st =
     concat (map (\<lambda>(i, msgs). map (\<lambda>j. (i, j))
                    (filter (\<lambda>j. \<not> complete (msgs ! j)) [0..<length msgs]))
               (outstanding_resources st))"

definition get_completed :: "env \<Rightarrow> compression_type \<Rightarrow> writer \<Rightarrow> writer option" where
  "get_completed e out_ctype st =
     (case in_flight st of
        [] \<Rightarrow> None
      | c # cs \<Rightarrow>
          let k = (case sched st of [] \<Rightarrow> 0 | x # _ \<Rightarrow> x mod length (c # cs));
              (i, j) = (c # cs) ! k;
              msgs = msg_list st i;
              msg = (compress_chunks (msgs ! j) (get_compress_func e out_ctype))
                      \<lparr>complete := True\<rparr>
          in Some (st\<lparr>outstanding_resources :=
                        AList.update i (msgs[j := msg]) (outstanding_resources st),
                      sched := tl (sched st)\<rparr>))"

text \<open>
  The end of a stream in the main thread: the chunk table is finished; a resource
  that did not get smaller is written again uncompressed, any other gets its
  resource entry.
\<close>

definition publish_cur_stream ::
  "env \<Rightarrow> wim_lookup_table_entry \<Rightarrow> chunk_table \<Rightarrow> world
     \<Rightarrow> ret \<times> wim_lookup_table_entry \<times> world" where
  "publish_cur_stream e lte tab w =
     (let (r, res_csize, w1) = finish_wim_resource_chunk_tab tab w in
      case res_csize of
        None \<Rightarrow> (r, lte, w1)
      | Some csize \<Rightarrow>
          if csize \<ge> wim_resource_size lte then
            let (r2, lte2, w2, ent) =
                  write_uncompressed_resource_and_truncate e lte w1 (file_offset tab)
                    (Some (output_resource_entry lte))
            in (r2, store_entry lte2 ent, w2)
          else
            (None,
             lte\<lparr>output_resource_entry :=
                   \<lparr>offset = of_nat (file_offset tab),
                    size_e = csize,
                    original_size = original_size (resource_entry lte),
                    flags = insert WIM_RESHDR_FLAG_COMPRESSED (flags (resource_entry lte))\<rparr>\<rparr>,
             w1))"

text \<open>The stream linked after stream \<open>c\<close> in a list, if there is one.\<close>

fun entry_after :: "nat \<Rightarrow> (nat \<times> 'a) list \<Rightarrow> nat option" where
  "entry_after c [] = None"
| "entry_after c [p] = None"
| "entry_after c (p # q # ps) =
     (if fst p = c then Some (fst q) else entry_after c (q # ps))"

text \<open>
  What follows the last chunk of the current stream: the stream is published, taken
  off \<open>outstanding_resources\<close>, \<open>cur_lte\<close> moves on, and the streams waiting in
  \<open>my_resources\<close> are written.
\<close>

definition finish_cur_stream ::
  "env \<Rightarrow> compression_type \<Rightarrow> nat \<Rightarrow> chunk_table \<Rightarrow> writer \<Rightarrow> ret \<times> writer" where
  "finish_cur_stream e out_ctype c tab st =
     (let (r, lte1, w1) = publish_cur_stream e (streams st ! c) tab (out_fp st);
          st1 = st\<lparr>streams := (streams st)[c := lte1], out_fp := w1\<rparr>
      in
        if r \<noteq> None then (r, st1)
        else
          let st2 = st1\<lparr>cur_chunk_tab := None,
                        outstanding_resources := AList.delete c (outstanding_resources st1),
                        cur_lte := entry_after c (outstanding_resources st1)\<rparr>;
              (r2, ltes2, rest, w2) =
                do_write_stream_list e (streams st2) (my_resources st2) (out_fp st2) out_ctype {}
          in (r2, st2\<lparr>streams := ltes2, my_resources := rest, out_fp := w2\<rparr>))"

text \<open>
  One round of the second inner loop of the main thread,
  \<open>while (cur_lte != NULL && !list_empty(&cur_lte->msg_list) && msg->complete)\<close>,
  with its condition: the first message of the current stream is written if it is
  complete. The third component tells whether the loop goes on; with an error it
  does not (\<open>goto out\<close>).

  A null \<open>cur_chunk_tab\<close> in \<open>write_wim_chunks\<close> is returned as a write error; the
  branch is not reached, since the first message of a stream has \<open>begin_chunk = 0\<close>
  and allocates the table.
\<close>

definition drain_step ::
  "env \<Rightarrow> compression_type \<Rightarrow> writer \<Rightarrow> ret \<times> writer \<times> bool" where
  "drain_step e out_ctype st =
     (case cur_lte st of
        None \<Rightarrow> (None, st, False)
      | Some c \<Rightarrow>
          (case msg_list st c of
             [] \<Rightarrow> (None, st, False)
           | msg # msgs \<Rightarrow>
               if \<not> complete msg then (None, st, False)
               else
                 let (r1, st1) =
                       (if begin_chunk msg = 0 then
                          let (pos, w1) = ftello (out_fp st) in
                          (case pos of
                             None \<Rightarrow> (Some WIMLIB_ERR_WRITE, st\<lparr>out_fp := w1\<rparr>)
                           | Some cur_off \<Rightarrow>
                               let (r, tabo, w2) =
                                     begin_wim_resource_chunk_tab (streams st ! c) w1 cur_off
                               in (r, st\<lparr>out_fp := w2, cur_chunk_tab := tabo\<rparr>))
                        else (None, st))
                 in
                   if r1 \<noteq> None then (r1, st1, False)
                   else
                     (case cur_chunk_tab st1 of
                        None \<Rightarrow> (Some WIMLIB_ERR_WRITE, st1, False)
                      | Some tab \<Rightarrow>
                          let (r2, tab2, w2) =
                                write_wim_chunks (out_compressed_chunks msg) tab (out_fp st1);
                              st2 = st1\<lparr>cur_chunk_tab := Some tab2, out_fp := w2\<rparr>
                          in
                            if r2 \<noteq> None then (r2, st2, False)
                            else
                              let st3 = st2\<lparr>outstanding_resources :=
                                              AList.update c msgs (outstanding_resources st2),
                                            available_msgs := available_msgs st2 + 1\<rparr>
                              in
                                if msgs = [] \<and>
                                   begin_chunk msg + of_nat (msg_num_chunks msg)
                                     = num_chunks tab2
                                then
                                  let (r4, st4) = finish_cur_stream e out_ctype c tab2 st3
                                  in (r4, st4, r4 = None)
                                else (None, st3, True))))"

lemma pending_update_less:
  "map_of xs c = Some (m # ms) \<Longrightarrow>
     sum_list (map (\<lambda>p. length (snd p)) (AList.update c ms xs))
       < sum_list (map (\<lambda>p. length (snd p)) xs)"
  by (induction xs) (auto split: if_splits)

lemma pending_delete_le:
  "sum_list (map (\<lambda>p. length (snd p)) (AList.delete c xs))
     \<le> sum_list (map (\<lambda>p. length (snd p)) xs)"
  by (induction xs) auto

lemma finish_cur_stream_pending:
  "pending_msgs (snd (finish_cur_stream e out_ctype c tab st)) \<le> pending_msgs st"
  using pending_delete_le [of c "outstanding_resources st"]
  by (auto simp: finish_cur_stream_def pending_msgs_def Let_def split: prod.splits)

lemma finish_cur_stream_pending2:
  "finish_cur_stream e out_ctype c tab st = (r, st') \<Longrightarrow>
     (\<Sum>p\<leftarrow>outstanding_resources st'. length (snd p))
       \<le> (\<Sum>p\<leftarrow>outstanding_resources st. length (snd p))"
  using finish_cur_stream_pending [of e out_ctype c tab st]
  by (simp add: pending_msgs_def)

lemma drain_step_decreases:
  assumes "drain_step e out_ctype st = (r, st', True)"
  shows "pending_msgs st' < pending_msgs st"
proof -
  from assms obtain c where c: "cur_lte st = Some c"
    by (auto simp: drain_step_def split: option.splits)
  from assms c obtain msg msgs where m: "msg_list st c = msg # msgs"
    by (auto simp: drain_step_def split: list.splits)
  then have mo: "map_of (outstanding_resources st) c = Some (msg # msgs)"
    by (auto simp: msg_list_def split: option.splits)
  have less: "sum_list (map (\<lambda>p. length (snd p)) (AList.update c msgs (outstanding_resources st)))
       < pending_msgs st"
    unfolding pending_msgs_def by (rule pending_update_less [OF mo])
  show ?thesis
    using assms c m less
    apply (simp add: drain_step_def Let_def split: if_splits prod.splits option.splits)
     apply (auto simp: pending_msgs_def dest!: finish_cur_stream_pending2
               split: if_splits prod.splits option.splits)
    done
qed

function drain :: "env \<Rightarrow> compression_type \<Rightarrow> writer \<Rightarrow> ret \<times> writer" where
  "drain e out_ctype st =
     (let (r, st1, again) = drain_step e out_ctype st in
      if again then drain e out_ctype st1 else (r, st1))"
  by pat_completeness auto

termination
  by (relation "measure (\<lambda>(e, out_ctype, st). pending_msgs st)")
     (auto dest: drain_step_decreases [OF sym])

declare drain.simps [simp del]

text \<open>
  The main loop, \<open>while (1)\<close>: send chunks off, stop when no stream is outstanding,
  otherwise wait for a message and write what can be written. \<open>Some (r, st)\<close> is
  the arrival at the label \<open>out\<close> with \<open>ret = r\<close>. \<open>None\<close> is a run that does not get
  there: the wait for a message blocks for ever, or the run takes more rounds than
  the model follows.
\<close>

fun main_loop ::
  "nat \<Rightarrow> env \<Rightarrow> compression_type \<Rightarrow> write_flag set \<Rightarrow> writer \<Rightarrow> (ret \<times> writer) option" where
  "main_loop 0 e out_ctype write_flags st = None"
| "main_loop (Suc n) e out_ctype write_flags st =
     (let (r, st1) = dispatch e out_ctype write_flags st in
      if r \<noteq> None then Some (r, st1)
      else if outstanding_resources st1 = [] then Some (None, st1)
      else
        (case get_completed e out_ctype st1 of
           None \<Rightarrow> None
         | Some st2 \<Rightarrow>
             let (r3, st3) = drain e out_ctype st2 in
             if r3 \<noteq> None then Some (r3, st3)
             else main_loop n e out_ctype write_flags st3))"

text \<open>
  The code after the label \<open>out\<close>. With \<open>ret = 0\<close> the streams left in
  \<open>my_resources\<close> are written. Otherwise the main thread waits for every message
  that is not in \<open>available_msgs\<close>; only those that are with the compressor threads
  ever arrive, so the wait blocks for ever (\<open>None\<close>) if any other message is missing
  from the list.
\<close>

definition writer_exit ::
  "env \<Rightarrow> compression_type \<Rightarrow> ret \<Rightarrow> writer
     \<Rightarrow> (ret \<times> wim_lookup_table_entry list \<times> world) option" where
  "writer_exit e out_ctype r st =
     (let st1 = (case next_lte st of
                   None \<Rightarrow> st
                 | Some i \<Rightarrow>
                     st\<lparr>streams := (streams st)[i := end_wim_resource_read (streams st ! i)]\<rparr>)
      in
        if r = None then
          let (r2, ltes2, rest, w2) =
                do_write_stream_list e (streams st1) (my_resources st1) (out_fp st1) out_ctype {}
          in Some (r2, ltes2, w2)
        else if num_messages st1 - available_msgs st1 > length (in_flight st1) then None
        else Some (r, streams st1, out_fp st1))"

text \<open>The allocation of the buffers of the messages, two per chunk.\<close>

fun alloc_buffers :: "nat \<Rightarrow> world \<Rightarrow> bool \<times> world" where
  "alloc_buffers 0 w = (True, w)"
| "alloc_buffers (Suc k) w =
     (let (failed1, w1) = next_fault w;
          (failed2, w2) = next_fault w1
      in if failed1 \<or> failed2 then (False, w2) else alloc_buffers k w2)"

definition main_writer_thread_proc ::
  "env \<Rightarrow> wim_lookup_table_entry list \<Rightarrow> nat list \<Rightarrow> world \<Rightarrow> compression_type \<Rightarrow> nat
     \<Rightarrow> write_flag set \<Rightarrow> (ret \<times> wim_lookup_table_entry list \<times> world) option" where
  "main_writer_thread_proc e ltes strms w out_ctype n_messages write_flags =
     (let (msgs_failed, w1) = next_fault w in
      if msgs_failed then Some (Some WIMLIB_ERR_NOMEM, ltes, w1)
      else
        let (allocated, w2) = alloc_buffers (n_messages * unat MAX_CHUNKS_PER_MSG) w1 in
        if \<not> allocated then Some (Some WIMLIB_ERR_NOMEM, ltes, w2)
        else
          let st = \<lparr>streams = ltes, stream_list = strms, num_messages = n_messages,
                    available_msgs = n_messages, outstanding_resources = [],
                    next_resource = 0, next_chunk = 0, next_num_chunks = 0,
                    next_sha_ctx = sha1_init, my_resources = [], cur_lte = None,
                    next_lte = None, cur_chunk_tab = None, out_fp = w2,
                    sched = schedule e\<rparr>
          in
            (case main_loop (max_rounds e) e out_ctype write_flags st of
               None \<Rightarrow> None
             | Some (r, st1) \<Rightarrow> writer_exit e out_ctype r st1))"

section \<open>Choosing between one thread and several\<close>

definition UINT_MAX :: int where
  "UINT_MAX = 4294967295"

text \<open>
  \<open>pthread_create\<close> for each of \<open>k\<close> compressor threads; \<open>False\<close> when one of the
  calls fails.
\<close>

fun create_threads :: "nat \<Rightarrow> world \<Rightarrow> bool \<times> world" where
  "create_threads 0 w = (True, w)"
| "create_threads (Suc k) w =
     (let (failed, w1) = next_fault w in
      if failed then (False, w1) else create_threads k w1)"

text \<open>
  Whether \<open>main_writer_thread_proc\<close>, called with the file \<open>w\<close> and \<open>n_messages\<close>
  messages, gets past its allocations and into its loop.
\<close>

definition main_writer_reaches_loop :: "world \<Rightarrow> nat \<Rightarrow> bool" where
  "main_writer_reaches_loop w n_messages =
     (let (msgs_failed, w1) = next_fault w in
      \<not> msgs_failed \<and> fst (alloc_buffers (n_messages * unat MAX_CHUNKS_PER_MSG) w1))"

text \<open>
  The two ways out of the body of \<open>write_stream_list_parallel\<close>: \<open>return ret\<close>, and
  the label \<open>out_serial\<close>, where the serial writer is called on \<open>stream_list\<close>. The flag
  of \<open>OUT_SERIAL\<close> tells whether \<open>main_writer_thread_proc\<close> has by then put a stream of
  \<open>stream_list\<close> on a list of its own. It does that with \<open>list_add_tail\<close> alone, which
  overwrites the links of the stream and leaves its old neighbours pointing to it,
  so that \<open>stream_list\<close> is no longer a list that can be walked.
\<close>

datatype parallel_exit =
    RETURN_RET ret "wim_lookup_table_entry list" world
  | OUT_SERIAL "wim_lookup_table_entry list" world bool

text \<open>
  The body of \<open>write_stream_list_parallel\<close> up to its last two statements. The
  labels \<open>out_join\<close>, \<open>out_destroy_compressed_res_queue\<close> and
  \<open>out_destroy_res_to_compress_queue\<close> all lead to the test
  \<open>ret >= 0 && ret != WIMLIB_ERR_NOMEM\<close>; the failed allocations arrive there with
  \<open>WIMLIB_ERR_NOMEM\<close> and a failed \<open>pthread_create\<close> with \<open>-1\<close>.
\<close>

definition parallel_attempt ::
  "env \<Rightarrow> wim_lookup_table_entry list \<Rightarrow> nat list \<Rightarrow> world \<Rightarrow> compression_type
     \<Rightarrow> write_flag set \<Rightarrow> nat \<Rightarrow> parallel_exit option" where
  "parallel_attempt e ltes strms w out_ctype write_flags num_threads =
     (if num_threads = 0 \<and> (nprocs e < 1 \<or> nprocs e > UINT_MAX)
      then Some (OUT_SERIAL ltes w False)
      else
        let n_threads = (if num_threads = 0 then nat (nprocs e) else num_threads);
            queue_size = n_threads * 2;
            (q1_failed, w1) = next_fault w
        in
          if q1_failed then Some (OUT_SERIAL ltes w1 False)
          else
            let (q2_failed, w2) = next_fault w1 in
            if q2_failed then Some (OUT_SERIAL ltes w2 False)
            else
              let (threads_failed, w3) = next_fault w2 in
              if threads_failed then Some (OUT_SERIAL ltes w3 False)
              else
                let (created, w4) = create_threads n_threads w3 in
                if \<not> created then Some (OUT_SERIAL ltes w4 False)
                else
                  (case main_writer_thread_proc e ltes strms w4 out_ctype queue_size
                          write_flags of
                     None \<Rightarrow> None
                   | Some (r, ltes5, w5) \<Rightarrow>
                       if r \<noteq> Some MINUS_ONE \<and> r \<noteq> Some WIMLIB_ERR_NOMEM
                       then Some (RETURN_RET r ltes5 w5)
                       else Some (OUT_SERIAL ltes5 w5
                                    (main_writer_reaches_loop w4 queue_size \<and> strms \<noteq> []))))"

text \<open>
  \<open>write_stream_list_parallel\<close>. At \<open>out_serial\<close> it calls the serial writer on
  \<open>stream_list\<close>; what that call does when the links of \<open>stream_list\<close> have been
  overwritten is not followed (\<open>None\<close>).
\<close>

definition write_stream_list_parallel ::
  "env \<Rightarrow> wim_lookup_table_entry list \<Rightarrow> nat list \<Rightarrow> world \<Rightarrow> compression_type
     \<Rightarrow> write_flag set \<Rightarrow> nat
     \<Rightarrow> (ret \<times> wim_lookup_table_entry list \<times> world) option" where
  "write_stream_list_parallel e ltes strms w out_ctype write_flags num_threads =
     (case parallel_attempt e ltes strms w out_ctype write_flags num_threads of
        None \<Rightarrow> None
      | Some (RETURN_RET r ltes1 w1) \<Rightarrow> Some (r, ltes1, w1)
      | Some (OUT_SERIAL ltes1 w1 links_overwritten) \<Rightarrow>
          if links_overwritten then None
          else Some (write_stream_list_serial e ltes1 strms w1 out_ctype write_flags))"

text \<open>
  \<open>write_stream_list\<close>, for a build with \<open>ENABLE_MULTITHREADED_COMPRESSION\<close>.
  \<open>total_compression_bytes\<close> is the 64-bit sum that the first loop accumulates.
\<close>

definition needs_compression ::
  "compression_type \<Rightarrow> write_flag set \<Rightarrow> wim_lookup_table_entry \<Rightarrow> bool" where
  "needs_compression out_ctype write_flags lte =
     (out_ctype \<noteq> WIMLIB_COMPRESSION_TYPE_NONE
      \<and> (wim_resource_compression_type lte \<noteq> out_ctype
         \<or> WIMLIB_WRITE_FLAG_RECOMPRESS \<in> write_flags))"

fun total_compression_bytes ::
  "compression_type \<Rightarrow> write_flag set \<Rightarrow> wim_lookup_table_entry list \<Rightarrow> nat list \<Rightarrow> u64
     \<Rightarrow> u64" where
  "total_compression_bytes out_ctype write_flags ltes [] acc = acc"
| "total_compression_bytes out_ctype write_flags ltes (i # rest) acc =
     total_compression_bytes out_ctype write_flags ltes rest
       (if needs_compression out_ctype write_flags (ltes ! i)
        then acc + wim_resource_size (ltes ! i) else acc)"

definition write_stream_list ::
  "env \<Rightarrow> wim_lookup_table_entry list \<Rightarrow> nat list \<Rightarrow> world \<Rightarrow> compression_type
     \<Rightarrow> write_flag set \<Rightarrow> nat
     \<Rightarrow> (ret \<times> wim_lookup_table_entry list \<times> world) option" where
  "write_stream_list e ltes strms w out_ctype write_flags num_threads =
     (if total_compression_bytes out_ctype write_flags ltes strms 0 \<ge> 1000000
         \<and> num_threads \<noteq> 1
      then write_stream_list_parallel e ltes strms w out_ctype write_flags num_threads
      else Some (write_stream_list_serial e ltes strms w out_ctype write_flags))"

section \<open>Finishing and overwriting a WIM\<close>

record wim_header =
  lookup_table_res_entry :: resource_entry
  xml_res_entry :: resource_entry
  boot_metadata_res_entry :: resource_entry
  integrity :: resource_entry
  image_count :: nat
  boot_idx :: nat
  total_parts :: nat

text \<open>
  An element of \<open>w->image_metadata\<close>: the \<open>modified\<close> flag and the output resource
  entry of the image's metadata stream.
\<close>

record image_metadata =
  modified :: bool
  metadata_entry :: resource_entry

text \<open>
  \<open>WIMStruct\<close>, the fields write.c uses. \<open>wim_out_fp\<close> tells whether \<open>w->out_fp\<close> is
  open; the file behind it, which is also the file named \<open>filename\<close>, is the
  \<open>world\<close> that the functions pass on. \<open>compression_type\<close> is what
  \<open>wimlib_get_compression_type(w)\<close> returns.
\<close>

record WIMStruct =
  wim_id :: nat
  filename :: "string option"
  hdr :: wim_header
  lookup_table :: "wim_lookup_table_entry list"
  image_metadata :: "image_metadata list"
  deletion_occurred :: bool
  wim_locked :: bool
  wim_out_fp :: bool
  compression_type :: compression_type

datatype flock_result = FLOCK_OK | FLOCK_EWOULDBLOCK | FLOCK_OTHER_ERROR

text \<open>
  What write.c calls and src/ does not define: the writers of the metadata
  resource of the selected image, of the lookup table, of the XML data, of the
  integrity table and of the header. Each writes at the position of the output
  file and returns its code; the three table writers also return the resource entry
  they fill in. \<open>flock_outcome\<close> is what \<open>flock\<close> does when \<open>lock_wim\<close> calls it, and
  \<open>truncate_fails\<close> whether the final \<open>truncate\<close> of \<open>overwrite_wim_inplace\<close>, whose
  result the code ignores, fails.
\<close>

record collaborators =
  write_metadata_resource :: "nat \<Rightarrow> WIMStruct \<Rightarrow> world \<Rightarrow> ret \<times> WIMStruct \<times> world"
  write_lookup_table :: "wim_lookup_table_entry list \<Rightarrow> world \<Rightarrow> ret \<times> resource_entry \<times> world"
  write_xml_data :: "bool \<Rightarrow> world \<Rightarrow> ret \<times> resource_entry \<times> world"
  write_integrity_table :: "u64 \<Rightarrow> u64 \<Rightarrow> world \<Rightarrow> ret \<times> resource_entry \<times> world"
  write_header :: "wim_header \<Rightarrow> world \<Rightarrow> ret \<times> world"
  flock_outcome :: flock_result
  truncate_fails :: bool

text \<open>
  \<open>finish_write\<close>. The image is \<open>None\<close> for \<open>WIMLIB_ALL_IMAGES\<close>. The argument of
  \<open>write_xml_data\<close> tells whether the total size is taken from the existing
  information (the flag \<open>NO_LOOKUP_TABLE\<close>). The boot metadata entry is copied from
  the image \<open>boot_idx\<close>; an index past the images, which the source does not check,
  leaves the entry as it is.
\<close>

definition finish_write_body ::
  "collaborators \<Rightarrow> WIMStruct \<Rightarrow> nat option \<Rightarrow> write_flag set \<Rightarrow> world \<Rightarrow> ret \<times> world" where
  "finish_write_body cb w img_sel write_flags out =
     (let hdr0 = hdr w;
          (r1, hdr1, out1) =
            (if WIMLIB_WRITE_FLAG_NO_LOOKUP_TABLE \<notin> write_flags then
               let (r, ent, o1) = write_lookup_table cb (lookup_table w) out
               in (r, hdr0\<lparr>lookup_table_res_entry := ent\<rparr>, o1)
             else (None, hdr0, out))
      in
        if r1 \<noteq> None then (r1, out1)
        else
          let (r2, xml_ent, out2) =
                write_xml_data cb (WIMLIB_WRITE_FLAG_NO_LOOKUP_TABLE \<in> write_flags) out1;
              hdr2 = hdr1\<lparr>xml_res_entry := xml_ent\<rparr>
          in
            if r2 \<noteq> None then (r2, out2)
            else
              let (r3, hdr3, out3) =
                    (if WIMLIB_WRITE_FLAG_CHECK_INTEGRITY \<in> write_flags then
                       let (rc, oc) =
                             (if WIMLIB_WRITE_FLAG_CHECKPOINT_AFTER_XML \<in> write_flags then
                                let (sought, oa) = fseeko_set 0 out2 in
                                if \<not> sought then (Some WIMLIB_ERR_WRITE, oa)
                                else
                                  let (rh, ob) = write_header cb (hdr2\<lparr>integrity := zero_entry\<rparr>) oa
                                  in
                                    if rh \<noteq> None then (rh, ob)
                                    else
                                      let (flush_failed, oc) = next_fault ob in
                                      if flush_failed then (Some WIMLIB_ERR_WRITE, oc)
                                      else
                                        let (at_end, od) = fseeko_end oc in
                                        if \<not> at_end then (Some WIMLIB_ERR_WRITE, od)
                                        else (None, od)
                              else (None, out2))
                       in
                         if rc \<noteq> None then (rc, hdr2, oc)
                         else
                           let old_lookup_table_end =
                                 (if WIMLIB_WRITE_FLAG_REUSE_INTEGRITY_TABLE \<in> write_flags
                                  then offset (lookup_table_res_entry (hdr w))
                                       + size_e (lookup_table_res_entry (hdr w))
                                  else 0);
                               new_lookup_table_end =
                                 offset (lookup_table_res_entry hdr2)
                                 + size_e (lookup_table_res_entry hdr2);
                               (ri, ient, oi) =
                                 write_integrity_table cb new_lookup_table_end
                                   old_lookup_table_end oc
                           in (ri, hdr2\<lparr>integrity := ient\<rparr>, oi)
                     else (None, hdr2\<lparr>integrity := zero_entry\<rparr>, out2))
              in
                if r3 \<noteq> None then (r3, out3)
                else
                  let hdr4 = (case img_sel of
                                None \<Rightarrow> hdr3
                              | Some img \<Rightarrow>
                                  hdr3\<lparr>image_count := 1,
                                       boot_idx := (if boot_idx hdr3 = img then 1 else 0)\<rparr>);
                      hdr5 = (if boot_idx hdr4 = 0
                              then hdr4\<lparr>boot_metadata_res_entry := zero_entry\<rparr>
                              else if boot_idx hdr4 - 1 < length (image_metadata w)
                              then hdr4\<lparr>boot_metadata_res_entry :=
                                          metadata_entry (image_metadata w ! (boot_idx hdr4 - 1))\<rparr>
                              else hdr4);
                      (sought, out4) = fseeko_set 0 out3
                  in
                    if \<not> sought then (Some WIMLIB_ERR_WRITE, out4)
                    else
                      let (r5, out5) = write_header cb hdr5 out4 in
                      if r5 \<noteq> None then (r5, out5)
                      else if WIMLIB_WRITE_FLAG_FSYNC \<in> write_flags then
                        let (flush_failed, out6) = next_fault out5 in
                        if flush_failed then (Some WIMLIB_ERR_WRITE, out6)
                        else
                          let (sync_failed, out7) = next_fault out6 in
                          if sync_failed then (Some WIMLIB_ERR_WRITE, out7)
                          else (None, out7)
                      else (None, out5))"

definition finish_write ::
  "collaborators \<Rightarrow> WIMStruct \<Rightarrow> nat option \<Rightarrow> write_flag set \<Rightarrow> world
     \<Rightarrow> ret \<times> WIMStruct \<times> world" where
  "finish_write cb w img_sel write_flags out =
     (let (r, out1) = finish_write_body cb w img_sel write_flags out;
          (close_failed, out2) = next_fault out1;
          r1 = (if close_failed \<and> r = None then Some WIMLIB_ERR_WRITE else r)
      in (r1, w\<lparr>wim_out_fp := False\<rparr>, out2))"

text \<open>
  \<open>lock_wim\<close>, for a build with \<open>flock\<close>. \<open>fp\<close> tells whether the \<open>FILE *\<close> passed in
  is non-null.
\<close>

definition lock_wim :: "collaborators \<Rightarrow> WIMStruct \<Rightarrow> bool \<Rightarrow> ret \<times> WIMStruct" where
  "lock_wim cb w fp =
     (if fp \<and> \<not> wim_locked w then
        (case flock_outcome cb of
           FLOCK_OK \<Rightarrow> (None, w\<lparr>wim_locked := True\<rparr>)
         | FLOCK_EWOULDBLOCK \<Rightarrow> (Some WIMLIB_ERR_ALREADY_LOCKED, w)
         | FLOCK_OTHER_ERROR \<Rightarrow> (None, w))
      else (None, w))"

text \<open>
  \<open>open_wim_writable\<close> and \<open>close_wim_writable\<close>. Opening with \<open>trunc\<close> empties the
  file; either way the stream starts at position 0. A failure of the \<open>fclose\<close> in
  \<open>close_wim_writable\<close> only prints a warning.
\<close>

definition open_wim_writable :: "WIMStruct \<Rightarrow> bool \<Rightarrow> world \<Rightarrow> ret \<times> WIMStruct \<times> world" where
  "open_wim_writable w trunc out =
     (let (open_failed, out1) = next_fault out in
      if open_failed then (Some WIMLIB_ERR_OPEN, w, out1)
      else (None, w\<lparr>wim_out_fp := True\<rparr>,
            out1\<lparr>file_data := (if trunc then [] else file_data out1), file_pos := 0\<rparr>))"

definition close_wim_writable :: "WIMStruct \<Rightarrow> WIMStruct" where
  "close_wim_writable w = (if wim_out_fp w then w\<lparr>wim_out_fp := False\<rparr> else w)"

definition any_images_modified :: "WIMStruct \<Rightarrow> bool" where
  "any_images_modified w =
     list_ex modified (take (image_count (hdr w)) (image_metadata w))"

text \<open>
  \<open>lte_overwrite_prepare\<close>, the visitor of \<open>wim_find_new_streams\<close>: the return code,
  the entry as it leaves it, and whether the entry was put on the stream list.
\<close>

definition lte_overwrite_prepare ::
  "nat \<Rightarrow> u64 \<Rightarrow> wim_lookup_table_entry \<Rightarrow> ret \<times> wim_lookup_table_entry \<times> bool" where
  "lte_overwrite_prepare wid end_offset lte =
     (if resource_location lte = RESOURCE_IN_WIM \<and> wim lte = wid
         \<and> offset (resource_entry lte) + size_e (resource_entry lte) > end_offset
      then (Some WIMLIB_ERR_RESOURCE_ORDER, lte, False)
      else
        (None,
         lte\<lparr>out_refcnt := refcnt lte, output_resource_entry := resource_entry lte\<rparr>,
         WIM_RESHDR_FLAG_METADATA \<notin> flags (resource_entry lte)
         \<and> (resource_location lte \<noteq> RESOURCE_IN_WIM \<or> wim lte \<noteq> wid)))"

text \<open>
  \<open>wim_find_new_streams\<close>. \<open>for_lookup_table_entry\<close> is defined outside src/; it is
  taken to call the visitor on the entries in the order of the table and to stop at
  the first nonzero result. \<open>list_add\<close> puts an entry at the head of the stream list.
\<close>

fun for_lookup_table_entry_prepare ::
  "nat \<Rightarrow> u64 \<Rightarrow> wim_lookup_table_entry list \<Rightarrow> nat list \<Rightarrow> nat list
     \<Rightarrow> ret \<times> wim_lookup_table_entry list \<times> nat list" where
  "for_lookup_table_entry_prepare wid end_offset ltes [] strms = (None, ltes, strms)"
| "for_lookup_table_entry_prepare wid end_offset ltes (i # rest) strms =
     (let (r, lte1, added) = lte_overwrite_prepare wid end_offset (ltes ! i) in
      if r \<noteq> None then (r, ltes, strms)
      else for_lookup_table_entry_prepare wid end_offset (ltes[i := lte1]) rest
             (if added then i # strms else strms))"

definition wim_find_new_streams ::
  "WIMStruct \<Rightarrow> u64 \<Rightarrow> ret \<times> wim_lookup_table_entry list \<times> nat list" where
  "wim_find_new_streams w end_offset =
     for_lookup_table_entry_prepare (wim_id w) end_offset (lookup_table w)
       [0..<length (lookup_table w)] []"

text \<open>
  The loop of \<open>overwrite_wim_inplace\<close> over the images: from the first modified
  image on, the metadata resource of every image is written.
\<close>

fun write_modified_metadata ::
  "collaborators \<Rightarrow> nat list \<Rightarrow> bool \<Rightarrow> WIMStruct \<Rightarrow> world \<Rightarrow> ret \<times> WIMStruct \<times> world" where
  "write_modified_metadata cb [] found w out = (None, w, out)"
| "write_modified_metadata cb (i # rest) found w out =
     (let found1 = (if \<not> found then modified (image_metadata w ! i) else found) in
      if found1 then
        let (r, w1, out1) = write_metadata_resource cb (i + 1) w out in
        if r \<noteq> None then (r, w1, out1)
        else write_modified_metadata cb rest found1 w1 out1
      else write_modified_metadata cb rest found1 w out)"

text \<open>
  \<open>overwrite_wim_inplace\<close> is written in three parts. \<open>inplace_prepare\<close> is the
  function up to the \<open>fseeko\<close> to \<open>old_wim_end\<close>: it either returns early (\<open>Inl\<close>) or
  has the file open, locked and positioned (\<open>Inr\<close>, with the flags, \<open>old_wim_end\<close>
  and the stream list as computed; \<open>old_wim_end_of\<close> and \<open>inplace_write_flags\<close> are
  the values the function gives to \<open>old_wim_end\<close> and \<open>write_flags\<close>). \<open>inplace_write\<close> writes the new streams, the
  metadata resources and the tables; \<open>None\<close> is a call that does not return (see
  \<open>main_loop\<close>). \<open>out_ftruncate\<close> is the code at the label of that name.
\<close>

definition nothing_changed :: "WIMStruct \<Rightarrow> bool" where
  "nothing_changed w = (\<not> deletion_occurred w \<and> \<not> any_images_modified w)"

definition old_wim_end_of :: "WIMStruct \<Rightarrow> u64" where
  "old_wim_end_of w =
     (let h = hdr w in
      if nothing_changed w
      then offset (lookup_table_res_entry h) + size_e (lookup_table_res_entry h)
      else if offset (integrity h) \<noteq> 0
      then offset (integrity h) + size_e (integrity h)
      else offset (xml_res_entry h) + size_e (xml_res_entry h))"

definition inplace_write_flags :: "WIMStruct \<Rightarrow> write_flag set \<Rightarrow> write_flag set" where
  "inplace_write_flags w write_flags =
     (if nothing_changed w
      then write_flags \<union> {WIMLIB_WRITE_FLAG_NO_LOOKUP_TABLE,
                           WIMLIB_WRITE_FLAG_CHECKPOINT_AFTER_XML}
      else write_flags)"

definition inplace_prepare ::
  "collaborators \<Rightarrow> WIMStruct \<Rightarrow> write_flag set \<Rightarrow> world
     \<Rightarrow> (ret \<times> WIMStruct \<times> world) + (WIMStruct \<times> write_flag set \<times> u64 \<times> nat list \<times> world)" where
  "inplace_prepare cb w write_flags out =
     (let h = hdr w in
      if offset (integrity h) \<noteq> 0 \<and> offset (integrity h) < offset (xml_res_entry h)
      then Inl (Some WIMLIB_ERR_RESOURCE_ORDER, w, out)
      else if offset (lookup_table_res_entry h) > offset (xml_res_entry h)
      then Inl (Some WIMLIB_ERR_RESOURCE_ORDER, w, out)
      else
        let old_wim_end = old_wim_end_of w;
            write_flags1 = inplace_write_flags w write_flags;
            (r, ltes1, strms) = wim_find_new_streams w old_wim_end;
            w1 = w\<lparr>lookup_table := ltes1\<rparr>
        in
          if r \<noteq> None then Inl (r, w1, out)
          else
            let (r2, w2, out2) = open_wim_writable w1 False out in
            if r2 \<noteq> None then Inl (r2, w2, out2)
            else
              let (r3, w3) = lock_wim cb w2 (wim_out_fp w2) in
              if r3 \<noteq> None then Inl (r3, w3\<lparr>wim_out_fp := False\<rparr>, out2)
              else
                let (sought, out3) = fseeko_set (unat old_wim_end) out2 in
                if \<not> sought
                then Inl (Some WIMLIB_ERR_WRITE,
                          w3\<lparr>wim_out_fp := False, wim_locked := False\<rparr>, out3)
                else Inr (w3, write_flags1, old_wim_end, strms, out3))"

definition inplace_write ::
  "env \<Rightarrow> collaborators \<Rightarrow> WIMStruct \<Rightarrow> write_flag set \<Rightarrow> nat list \<Rightarrow> nat \<Rightarrow> world
     \<Rightarrow> (ret \<times> WIMStruct \<times> world) option" where
  "inplace_write e cb w write_flags strms num_threads out =
     (case (if strms \<noteq> []
            then write_stream_list e (lookup_table w) strms out (compression_type w)
                   write_flags num_threads
            else Some (None, lookup_table w, out)) of
        None \<Rightarrow> None
      | Some (r1, ltes1, out1) \<Rightarrow>
          let w1 = w\<lparr>lookup_table := ltes1\<rparr> in
          if r1 \<noteq> None then Some (r1, w1, out1)
          else
            let (rm, wm, om) =
                  write_modified_metadata cb [0..<image_count (hdr w1)] False w1 out1
            in
              if rm \<noteq> None then Some (rm, wm, om)
              else Some (finish_write cb wm None
                           (insert WIMLIB_WRITE_FLAG_REUSE_INTEGRITY_TABLE write_flags) om))"

definition out_ftruncate ::
  "collaborators \<Rightarrow> write_flag set \<Rightarrow> u64 \<Rightarrow> ret \<Rightarrow> WIMStruct \<Rightarrow> world
     \<Rightarrow> ret \<times> WIMStruct \<times> world" where
  "out_ftruncate cb write_flags old_wim_end r w out =
     (let w1 = close_wim_writable w;
          out1 = (if r \<noteq> None \<and> WIMLIB_WRITE_FLAG_NO_LOOKUP_TABLE \<notin> write_flags
                     \<and> \<not> truncate_fails cb
                  then out\<lparr>file_data := truncate_to (unat old_wim_end) (file_data out)\<rparr>
                  else out)
      in (r, w1\<lparr>wim_locked := False\<rparr>, out1))"

definition overwrite_wim_inplace ::
  "env \<Rightarrow> collaborators \<Rightarrow> WIMStruct \<Rightarrow> write_flag set \<Rightarrow> nat \<Rightarrow> world
     \<Rightarrow> (ret \<times> WIMStruct \<times> world) option" where
  "overwrite_wim_inplace e cb w write_flags num_threads out =
     (case inplace_prepare cb w write_flags out of
        Inl early \<Rightarrow> Some early
      | Inr (w3, write_flags1, old_wim_end, strms, out3) \<Rightarrow>
          (case inplace_write e cb w3 write_flags1 strms num_threads out3 of
             None \<Rightarrow> None
           | Some (r, w4, out4) \<Rightarrow>
               Some (out_ftruncate cb write_flags1 old_wim_end r w4 out4)))"

text \<open>
  \<open>wimlib_overwrite\<close>. \<open>overwrite_wim_via_tmpfile\<close> writes a whole new file through
  \<open>wimlib_write\<close>, whose choice of streams walks data structures that write.c does
  not define; it is the parameter \<open>via_tmpfile\<close>.
\<close>

definition wimlib_overwrite ::
  "(WIMStruct \<Rightarrow> write_flag set \<Rightarrow> nat \<Rightarrow> world \<Rightarrow> (ret \<times> WIMStruct \<times> world) option)
     \<Rightarrow> env \<Rightarrow> collaborators \<Rightarrow> WIMStruct \<Rightarrow> write_flag set \<Rightarrow> nat \<Rightarrow> world
     \<Rightarrow> (ret \<times> WIMStruct \<times> world) option" where
  "wimlib_overwrite via_tmpfile e cb w write_flags num_threads out =
     (let write_flags1 = write_flags \<inter> WIMLIB_WRITE_MASK_PUBLIC in
      if filename w = None then Some (Some WIMLIB_ERR_NO_FILENAME, w, out)
      else if total_parts (hdr w) \<noteq> 1 then Some (Some WIMLIB_ERR_SPLIT_UNSUPPORTED, w, out)
      else if (\<not> deletion_occurred w \<or> WIMLIB_WRITE_FLAG_SOFT_DELETE \<in> write_flags1)
              \<and> WIMLIB_WRITE_FLAG_REBUILD \<notin> write_flags1
      then
        (case overwrite_wim_inplace e cb w write_flags1 num_threads out of
           None \<Rightarrow> None
         | Some (r, w1, out1) \<Rightarrow>
             if r = Some WIMLIB_ERR_RESOURCE_ORDER
             then via_tmpfile w1 write_flags1 num_threads out1
             else Some (r, w1, out1))
      else via_tmpfile w write_flags1 num_threads out)"

section \<open>Example inputs\<close>

text \<open>
  A stream held in memory with the given hash, declared size and contents, not
  compressed where it is; and an output file positioned at its end on which no call
  fails.
\<close>

definition buffer_stream :: "bytes \<Rightarrow> u64 \<Rightarrow> bytes \<Rightarrow> wim_lookup_table_entry" where
  "buffer_stream h sz content =
     \<lparr>hash = h,
      resource_entry = \<lparr>offset = 0, size_e = sz, original_size = sz, flags = {}\<rparr>,
      output_resource_entry = zero_entry,
      resource_location = RESOURCE_IN_ATTACHED_BUFFER,
      wim = 0,
      refcnt = 1,
      out_refcnt = 0,
      ctype = WIMLIB_COMPRESSION_TYPE_NONE,
      source = content,
      raw_source = content,
      file_on_disk_fp = False\<rparr>"

definition zero_hash :: bytes where
  "zero_hash = replicate SHA1_HASH_SIZE 0"

definition open_file :: "bytes \<Rightarrow> world" where
  "open_file d = \<lparr>file_data = d, file_pos = length d, faults = [], heap_addr = 4096\<rparr>"

text \<open>
  A stream of another WIM, stored there uncompressed, whose lookup table entry
  declares the given size; no byte of it can be read.
\<close>

definition stream_in_wim :: "u64 \<Rightarrow> wim_lookup_table_entry" where
  "stream_in_wim sz =
     (buffer_stream zero_hash sz [])\<lparr>resource_location := RESOURCE_IN_WIM, wim := 2\<rparr>"

text \<open>
  An environment for examples: a stand-in digest (nineteen zero bytes, then one plus
  the sum of the bytes digested), the given function as both compressors, two
  processors, messages returned in the order sent. \<open>never_smaller\<close> is a compressor
  that always gives up, \<open>keep_first_byte\<close> one that shrinks every chunk of two bytes
  or more to one byte.
\<close>

definition example_env :: "(bytes \<Rightarrow> bytes option) \<Rightarrow> env" where
  "example_env compress =
     \<lparr>sha1 = (\<lambda>bs. replicate 19 0 @ [1 + sum_list bs]),
      lzx_compress = compress,
      xpress_compress = compress,
      nprocs = 2,
      schedule = [],
      max_rounds = 100\<rparr>"


definition keep_first_byte :: "bytes \<Rightarrow> bytes option" where
  "keep_first_byte bs = (if length bs > 1 then Some (take 1 bs) else None)"

text \<open>
  Collaborators for examples: each writer stores one byte at the position of the
  file and reports a write error when that fails; the table writers return an entry
  of one byte at the position they wrote to. \<open>flock\<close> and \<open>truncate\<close> succeed.
\<close>

definition write_one_byte :: "u8 \<Rightarrow> world \<Rightarrow> ret \<times> resource_entry \<times> world" where
  "write_one_byte b out =
     (let (written, out1) = fwrite [b] out in
      (if written then None else Some WIMLIB_ERR_WRITE,
       \<lparr>offset = of_nat (file_pos out), size_e = 1, original_size = 1, flags = {}\<rparr>,
       out1))"

definition example_collaborators :: collaborators where
  "example_collaborators =
     \<lparr>write_metadata_resource =
        (\<lambda>i w out. let (r, ent, out1) = write_one_byte 77 out in (r, w, out1)),
      write_lookup_table = (\<lambda>ltes out. write_one_byte 76 out),
      write_xml_data = (\<lambda>keep_total out. write_one_byte 88 out),
      write_integrity_table = (\<lambda>new_end old_end out. write_one_byte 73 out),
      write_header = (\<lambda>h out. let (r, ent, out1) = write_one_byte 72 out in (r, out1)),
      flock_outcome = FLOCK_OK,
      truncate_fails = False\<rparr>"

text \<open>
  A WIM of three bytes (header, lookup table, XML data) with one image, whose
  lookup table holds the given streams.
\<close>

definition example_wim :: "wim_lookup_table_entry list \<Rightarrow> bool \<Rightarrow> WIMStruct" where
  "example_wim ltes image_modified =
     \<lparr>wim_id = 1,
      filename = Some ''a.wim'',
      hdr = \<lparr>lookup_table_res_entry = \<lparr>offset = 1, size_e = 1, original_size = 1, flags = {}\<rparr>,
             xml_res_entry = \<lparr>offset = 2, size_e = 1, original_size = 1, flags = {}\<rparr>,
             boot_metadata_res_entry = zero_entry,
             integrity = zero_entry,
             image_count = 1,
             boot_idx = 0,
             total_parts = 1\<rparr>,
      lookup_table = ltes,
      image_metadata = [\<lparr>modified = image_modified, metadata_entry = zero_entry\<rparr>],
      deletion_occurred = False,
      wim_locked = False,
      wim_out_fp = False,
      compression_type = WIMLIB_COMPRESSION_TYPE_LZX\<rparr>"


section \<open>Properties of the chunk table\<close>

lemma next_fault_pos [simp]:
  "file_pos (snd (next_fault w)) = file_pos w"
  "file_data (snd (next_fault w)) = file_data w"
  by (simp_all add: next_fault_def split: list.splits)

lemma fwrite_ok:
  "fwrite buf w = (True, w') \<Longrightarrow>
     file_data w' = store_at (file_pos w) buf (file_data w) \<and>
     file_pos w' = file_pos w + length buf"
  by (auto simp: fwrite_def store_at_def next_fault_def Let_def split: if_splits list.splits prod.splits)

lemma length_le_bytes [simp]: "length (le_bytes n x) = n"
  by (simp add: le_bytes_def)

lemma length_concat_le_bytes:
  "length (concat (map (le_bytes n) xs)) = length xs * n"
  by (induction xs) simp_all

lemma length_chunk_table_image:
  "length (chunk_table_image tab addr) = 56 + 8 * length (offsets_array tab)"
  by (simp add: chunk_table_image_def length_concat_le_bytes)

lemma begin_chunk_tab_ok:
  assumes "begin_wim_resource_chunk_tab lte w foff = (None, tabo, w')"
  shows "\<exists>tab. tabo = Some tab \<and>
           file_offset tab = foff \<and>
           num_chunks tab = (wim_resource_size lte + WIM_CHUNK_SIZE - 1) div WIM_CHUNK_SIZE \<and>
           original_resource_size tab = wim_resource_size lte \<and>
           bytes_per_chunk_entry tab = (if wim_resource_size lte \<ge> 2 ^ 32 then 8 else 4) \<and>
           table_disk_size tab = bytes_per_chunk_entry tab * (num_chunks tab - 1) \<and>
           cur_offset tab = 0 \<and> offsets tab = [] \<and>
           unat (table_disk_size tab) \<le> 56 + 8 * unat (num_chunks tab) \<and>
           file_data w' =
             store_at (file_pos w)
               (take (unat (table_disk_size tab)) (chunk_table_image tab (heap_addr w)))
               (file_data w) \<and>
           file_pos w' = file_pos w + unat (table_disk_size tab)"
  using assms
  apply (simp add: begin_wim_resource_chunk_tab_def Let_def split: prod.splits if_splits)
   apply (auto dest!: fwrite_ok
               simp: next_fault_def length_chunk_table_image offsets_array_def
               split: list.splits)
  done

lemma num_chunks_ceil:
  fixes s :: u64
  assumes "unat s \<le> 2 ^ 64 - 32768"
  shows "unat ((s + WIM_CHUNK_SIZE - 1) div WIM_CHUNK_SIZE) = (unat s + 32767) div 32768"
proof -
  have e: "s + WIM_CHUNK_SIZE - 1 = s + 32767" by (simp add: WIM_CHUNK_SIZE_def)
  have a: "unat (s + 32767) = unat s + 32767"
    using assms by (simp add: unat_add_lem [THEN iffD1])
  have b: "unat (32768 :: u64) = 32768" by simp
  have "unat ((s + 32767) div (32768 :: u64)) = unat (s + 32767) div unat (32768 :: u64)"
    by (rule unat_div)
  then have "unat ((s + 32767) div (32768 :: u64)) = (unat s + 32767) div 32768"
    unfolding a b .
  moreover have "s + WIM_CHUNK_SIZE - 1 = s + 32767" by (rule e)
  ultimately show ?thesis by (simp only: WIM_CHUNK_SIZE_def)
qed

lemma num_chunks_wraps:
  fixes s :: u64
  assumes "\<not> unat s \<le> 2 ^ 64 - 32768"
  shows "(s + WIM_CHUNK_SIZE - 1) div WIM_CHUNK_SIZE = 0"
proof -
  have e: "s + WIM_CHUNK_SIZE - 1 = s + 32767" by (simp add: WIM_CHUNK_SIZE_def)
  have lt: "unat s < 2 ^ 64" using unsigned_less [of s] by simp
  have "unat (s + 32767) = (unat s + unat (32767 :: u64)) mod 2 ^ 64"
    by (simp add: unat_word_ariths)
  also have "\<dots> = (unat s + 32767) mod 2 ^ 64" by simp
  also have "\<dots> = unat s + 32767 - 2 ^ 64"
    using assms lt by (simp add: mod_if)
  finally have a: "unat (s + 32767) < 32768" using lt by simp
  have b: "unat (32768 :: u64) = 32768" by simp
  have "unat ((s + 32767) div (32768 :: u64)) = unat (s + 32767) div unat (32768 :: u64)"
    by (rule unat_div)
  then have "unat ((s + 32767) div (32768 :: u64)) = 0"
    unfolding b using a by simp
  then have "(s + 32767) div (32768 :: u64) = 0" by (simp add: unat_eq_0)
  moreover have "s + WIM_CHUNK_SIZE - 1 = s + 32767" by (rule e)
  ultimately show ?thesis by (simp only: WIM_CHUNK_SIZE_def)
qed

lemma ceil_div: "int ((n + 32767) div 32768) = \<lceil>real n / 32768\<rceil>"
proof -
  have "\<lceil>real n / 32768\<rceil> = \<lceil>real_of_int (int n) / real_of_int 32768\<rceil>" by simp
  also have "\<dots> = - (- int n div 32768)" by (rule ceiling_divide_eq_div)
  also have "\<dots> = int ((n + 32767) div 32768)" by (simp add: zdiv_int)
  finally show ?thesis by simp
qed

lemma table_disk_size_exact:
  fixes n :: u64
  assumes "1 \<le> unat n" "unat n \<le> 2 ^ 49" "b = 4 \<or> b = (8::u64)"
  shows "unat (b * (n - 1)) = (unat n - 1) * unat b"
proof -
  have n1: "unat (n - 1) = unat n - 1"
    using assms(1) by (simp add: unat_sub word_le_nat_alt)
  have "unat b * unat (n - 1) < 2 ^ 64"
    using assms n1 by auto
  then have "unat (b * (n - 1)) = unat b * unat (n - 1)"
    by (simp add: unat_mult_lem [THEN iffD1])
  then show ?thesis by (simp add: n1 mult.commute)
qed

lemma begin_chunk_tab_fits:
  assumes "begin_wim_resource_chunk_tab lte w foff = (None, tabo, w')"
  shows "unat (wim_resource_size lte) \<le> 2 ^ 64 - 32768"
proof (rule ccontr)
  assume nf: "\<not> unat (wim_resource_size lte) \<le> 2 ^ 64 - 32768"
  from begin_chunk_tab_ok [OF assms] obtain tab where
    t: "tabo = Some tab"
    and n: "num_chunks tab = (wim_resource_size lte + WIM_CHUNK_SIZE - 1) div WIM_CHUNK_SIZE"
    and b: "bytes_per_chunk_entry tab = (if wim_resource_size lte \<ge> 2 ^ 32 then 8 else 4)"
    and d: "table_disk_size tab = bytes_per_chunk_entry tab * (num_chunks tab - 1)"
    and bound: "unat (table_disk_size tab) \<le> 56 + 8 * unat (num_chunks tab)"
    by blast
  have n0: "num_chunks tab = 0" unfolding n by (rule num_chunks_wraps [OF nf])
  have "table_disk_size tab = - 4 \<or> table_disk_size tab = - 8"
    unfolding d n0 b by simp
  then have "unat (table_disk_size tab) > 56" by auto
  with bound n0 show False by simp
qed

text \<open>
  C8. For a resource of size \<open>s > 0\<close>, a successful \<open>begin_wim_resource_chunk_tab\<close>
  yields a table with \<open>num_chunks = ceil(s / 32768)\<close>, entries of 8 bytes if
  \<open>s \<ge> 2^32\<close> and of 4 bytes otherwise, and
  \<open>table_disk_size = (num_chunks - 1) * bytes_per_chunk_entry\<close>; exactly
  \<open>table_disk_size\<close> placeholder bytes (the first bytes of the table's own block) are
  stored at the position the file had, which then lies that many bytes further;
  with one chunk the file is untouched. (For the sizes above \<open>2^64 - 32768\<close>, where
  the rounding addition wraps, the call does not succeed.)
\<close>

theorem begin_chunk_tab_layout:
  assumes pos: "0 < wim_resource_size lte"
      and ok: "begin_wim_resource_chunk_tab lte w foff = (None, tabo, w')"
  shows "\<exists>tab placeholder. tabo = Some tab \<and>
           int (unat (num_chunks tab)) = \<lceil>real (unat (wim_resource_size lte)) / 32768\<rceil> \<and>
           bytes_per_chunk_entry tab = (if 2 ^ 32 \<le> unat (wim_resource_size lte) then 8 else 4) \<and>
           unat (table_disk_size tab) =
             (unat (num_chunks tab) - 1) * unat (bytes_per_chunk_entry tab) \<and>
           placeholder = take (unat (table_disk_size tab)) (chunk_table_image tab (heap_addr w)) \<and>
           length placeholder = unat (table_disk_size tab) \<and>
           file_data w' = store_at (file_pos w) placeholder (file_data w) \<and>
           file_pos w' = file_pos w + unat (table_disk_size tab) \<and>
           (num_chunks tab = 1 \<longrightarrow> file_data w' = file_data w \<and> file_pos w' = file_pos w)"
proof -
  let ?s = "wim_resource_size lte"
  have fits: "unat ?s \<le> 2 ^ 64 - 32768" by (rule begin_chunk_tab_fits [OF ok])
  from begin_chunk_tab_ok [OF ok] obtain tab where
    t: "tabo = Some tab"
    and n: "num_chunks tab = (?s + WIM_CHUNK_SIZE - 1) div WIM_CHUNK_SIZE"
    and b: "bytes_per_chunk_entry tab = (if ?s \<ge> 2 ^ 32 then 8 else 4)"
    and d: "table_disk_size tab = bytes_per_chunk_entry tab * (num_chunks tab - 1)"
    and o: "offsets tab = []"
    and bound: "unat (table_disk_size tab) \<le> 56 + 8 * unat (num_chunks tab)"
    and fd: "file_data w' =
       store_at (file_pos w)
         (take (unat (table_disk_size tab)) (chunk_table_image tab (heap_addr w))) (file_data w)"
    and fp: "file_pos w' = file_pos w + unat (table_disk_size tab)"
    by blast
  let ?ph = "take (unat (table_disk_size tab)) (chunk_table_image tab (heap_addr w))"
  have un: "unat (num_chunks tab) = (unat ?s + 32767) div 32768"
    unfolding n by (rule num_chunks_ceil [OF fits])
  have spos: "0 < unat ?s" using pos by (simp add: word_less_nat_alt)
  have n1: "1 \<le> unat (num_chunks tab)" unfolding un using spos by simp
  have n49: "unat (num_chunks tab) \<le> 2 ^ 49" unfolding un using fits by simp
  have b48: "bytes_per_chunk_entry tab = 4 \<or> bytes_per_chunk_entry tab = 8"
    using b by simp
  have ce: "int (unat (num_chunks tab)) = \<lceil>real (unat ?s) / 32768\<rceil>"
    unfolding un by (rule ceil_div)
  have bb: "bytes_per_chunk_entry tab = (if 2 ^ 32 \<le> unat ?s then 8 else 4)"
    unfolding b by (simp add: word_le_nat_alt)
  have dd: "unat (table_disk_size tab) =
      (unat (num_chunks tab) - 1) * unat (bytes_per_chunk_entry tab)"
    unfolding d by (rule table_disk_size_exact [OF n1 n49 b48])
  have lph: "length ?ph = unat (table_disk_size tab)"
    using bound by (simp add: length_chunk_table_image offsets_array_def o)
  have one: "num_chunks tab = 1 \<longrightarrow> file_data w' = file_data w \<and> file_pos w' = file_pos w"
    using fd fp d by (simp add: store_at_def)
  from t ce bb dd lph fd fp one show ?thesis by blast
qed

theorem begin_chunk_tab_layout_witness:
  "0 < wim_resource_size (buffer_stream zero_hash 32769 []) \<and>
   (\<exists>tab w'. begin_wim_resource_chunk_tab (buffer_stream zero_hash 32769 []) (open_file [9, 9]) 2
                = (None, Some tab, w') \<and>
      num_chunks tab = 2 \<and> bytes_per_chunk_entry tab = 4 \<and> table_disk_size tab = 4 \<and>
      int (unat (num_chunks tab)) =
        \<lceil>real (unat (wim_resource_size (buffer_stream zero_hash 32769 []))) / 32768\<rceil> \<and>
      file_data w' = [9, 9, 2, 0, 0, 0] \<and> file_pos w' = 6)"
proof -
  let ?L = "buffer_stream zero_hash 32769 []"
  let ?T = "\<lparr>file_offset = 2, num_chunks = 2, original_resource_size = 32769,
             bytes_per_chunk_entry = 4, table_disk_size = 4, cur_offset = 0, offsets = []\<rparr>"
  let ?W = "\<lparr>file_data = [9, 9, 2, 0, 0, 0], file_pos = 6, faults = [], heap_addr = 4096\<rparr>"
  have h1: "0 < wim_resource_size ?L" by code_simp
  have run: "begin_wim_resource_chunk_tab ?L (open_file [9, 9]) 2 = (None, Some ?T, ?W)"
    by code_simp
  from begin_chunk_tab_layout [OF h1 run]
  have "int (unat (num_chunks ?T)) = \<lceil>real (unat (wim_resource_size ?L)) / 32768\<rceil>"
    by simp
  with h1 run show ?thesis by simp
qed

lemma upt_0_Suc: "[0..<Suc n] = 0 # map Suc [0..<n]"
  by (simp add: upt_conv_Cons map_Suc_upt del: upt_Suc)

lemma foldl_record_chunk:
  "foldl record_chunk tab cs =
     tab\<lparr>offsets := offsets tab @ map (\<lambda>i. cur_offset tab + sum_list (take i cs)) [0..<length cs],
         cur_offset := cur_offset tab + sum_list cs\<rparr>"
proof (induction cs arbitrary: tab)
  case Nil
  then show ?case by simp
next
  case (Cons c cs)
  let ?t = "record_chunk tab c"
  have m: "map (\<lambda>i. cur_offset tab + sum_list (take i (c # cs))) [0..<length (c # cs)] =
        cur_offset tab # map (\<lambda>i. cur_offset ?t + sum_list (take i cs)) [0..<length cs]"
    by (simp add: upt_0_Suc record_chunk_def add.assoc comp_def del: upt_Suc)
  have "foldl record_chunk tab (c # cs) = foldl record_chunk ?t cs" by simp
  also have "\<dots> = ?t\<lparr>offsets := offsets ?t @
                 map (\<lambda>i. cur_offset ?t + sum_list (take i cs)) [0..<length cs],
               cur_offset := cur_offset ?t + sum_list cs\<rparr>"
    by (rule Cons.IH)
  also have "\<dots> = tab\<lparr>offsets := offsets tab @
                 map (\<lambda>i. cur_offset tab + sum_list (take i (c # cs))) [0..<length (c # cs)],
               cur_offset := cur_offset tab + sum_list (c # cs)\<rparr>"
    unfolding m by (simp add: record_chunk_def add.assoc)
  finally show ?case .
qed

lemma fseeko_set_ok:
  "fseeko_set off w = (True, w') \<Longrightarrow> file_data w' = file_data w \<and> file_pos w' = off"
  by (auto simp: fseeko_set_def next_fault_def Let_def split: list.splits if_splits)

lemma fseeko_end_ok:
  "fseeko_end w = (True, w') \<Longrightarrow> file_data w' = file_data w \<and> file_pos w' = length (file_data w)"
  by (auto simp: fseeko_end_def next_fault_def Let_def split: list.splits if_splits)

lemma finish_chunk_tab_ok:
  assumes "finish_wim_resource_chunk_tab tab w = (None, res, w')"
  shows "res = Some (cur_offset tab + table_disk_size tab) \<and>
         file_data w' =
           store_at (file_offset tab)
             (take (unat (table_disk_size tab))
                (drop (unat (bytes_per_chunk_entry tab))
                   (concat (map (le_bytes (unat (bytes_per_chunk_entry tab))) (offsets_array tab)))))
             (file_data w) \<and>
         file_pos w' = length (file_data w')"
  using assms
  apply (simp add: finish_wim_resource_chunk_tab_def Let_def split: prod.splits if_splits)
  apply (auto dest!: fseeko_set_ok fseeko_end_ok fwrite_ok)
  done

lemma serialised_tail:
  assumes "xs \<noteq> []" "m = (length xs - 1) * n"
  shows "take m (drop n (concat (map (le_bytes n) xs))) = concat (map (le_bytes n) (tl xs))"
proof (cases xs)
  case Nil
  with assms show ?thesis by simp
next
  case (Cons y ys)
  then show ?thesis using assms by (simp add: length_concat_le_bytes)
qed

text \<open>
  C9. Let the table come from a successful \<open>begin_wim_resource_chunk_tab\<close> (resource
  size in the range of C8) and let all \<open>num_chunks\<close> chunk sizes \<open>cs\<close> have been
  recorded. Then \<open>offsets[0]\<close> is 0, entry \<open>i\<close> is the sum of the first \<open>i\<close> sizes, and
  a successful \<open>finish_wim_resource_chunk_tab\<close> stores at the table's reserved offset
  exactly the \<open>num_chunks - 1\<close> entries with index 1 and above, little-endian and
  \<open>bytes_per_chunk_entry\<close> wide (\<open>table_disk_size\<close> bytes in all), leaves the file
  positioned at its end, and returns \<open>cur_offset + table_disk_size\<close>.
\<close>

theorem finish_chunk_tab_serialises:
  assumes pos: "0 < wim_resource_size lte"
      and fits: "unat (wim_resource_size lte) \<le> 2 ^ 64 - 32768"
      and beg: "begin_wim_resource_chunk_tab lte w0 foff = (None, Some tab0, w1)"
      and len: "length cs = unat (num_chunks tab0)"
      and fin: "finish_wim_resource_chunk_tab (foldl record_chunk tab0 cs) w = (None, res, w')"
  shows "let tab = foldl record_chunk tab0 cs;
             entries = tl (offsets tab);
             width = unat (bytes_per_chunk_entry tab)
         in hd (offsets tab) = 0 \<and>
            length entries = unat (num_chunks tab) - 1 \<and>
            (\<forall>i < length cs. offsets tab ! i = sum_list (take i cs)) \<and>
            cur_offset tab = sum_list cs \<and>
            file_data w' = store_at foff (concat (map (le_bytes width) entries)) (file_data w) \<and>
            length (concat (map (le_bytes width) entries)) = unat (table_disk_size tab) \<and>
            file_pos w' = length (file_data w') \<and>
            res = Some (cur_offset tab + table_disk_size tab)"
proof -
  define tab where "tab = foldl record_chunk tab0 cs"
  from begin_chunk_tab_ok [OF beg] have
    fo: "file_offset tab0 = foff"
    and n: "num_chunks tab0 = (wim_resource_size lte + WIM_CHUNK_SIZE - 1) div WIM_CHUNK_SIZE"
    and b: "bytes_per_chunk_entry tab0 = (if wim_resource_size lte \<ge> 2 ^ 32 then 8 else 4)"
    and d: "table_disk_size tab0 = bytes_per_chunk_entry tab0 * (num_chunks tab0 - 1)"
    and c0: "cur_offset tab0 = 0" and o0: "offsets tab0 = []"
    by auto
  have un: "unat (num_chunks tab0) = (unat (wim_resource_size lte) + 32767) div 32768"
    unfolding n by (rule num_chunks_ceil [OF fits])
  have spos: "0 < unat (wim_resource_size lte)" using pos by (simp add: word_less_nat_alt)
  have n1: "1 \<le> unat (num_chunks tab0)" unfolding un using spos by simp
  have n49: "unat (num_chunks tab0) \<le> 2 ^ 49" unfolding un using fits by simp
  have b48: "bytes_per_chunk_entry tab0 = 4 \<or> bytes_per_chunk_entry tab0 = 8"
    using b by simp
  have dd: "unat (table_disk_size tab0) =
      (unat (num_chunks tab0) - 1) * unat (bytes_per_chunk_entry tab0)"
    unfolding d by (rule table_disk_size_exact [OF n1 n49 b48])
  have tab_eq: "tab = tab0\<lparr>offsets := map (\<lambda>i. sum_list (take i cs)) [0..<length cs],
                           cur_offset := sum_list cs\<rparr>"
    unfolding tab_def foldl_record_chunk by (simp add: c0 o0)
  have offs: "offsets tab = map (\<lambda>i. sum_list (take i cs)) [0..<length cs]"
    by (simp add: tab_eq)
  have lo: "length (offsets tab) = unat (num_chunks tab)"
    by (simp add: tab_eq len)
  have ne: "offsets tab \<noteq> []" using lo n1 by (auto simp: tab_eq)
  have cne: "cs \<noteq> []" using len n1 by auto
  have arr: "offsets_array tab = offsets tab"
    using lo by (simp add: offsets_array_def)
  have h0: "hd (offsets tab) = 0"
    using cne by (simp add: offs hd_map upt_conv_Cons del: upt_Suc)
  have nth: "\<forall>i < length cs. offsets tab ! i = sum_list (take i cs)"
    by (simp add: offs)
  have tds: "unat (table_disk_size tab) = (length (offsets tab) - 1) * unat (bytes_per_chunk_entry tab)"
    using dd by (simp add: tab_eq len)
  have ser: "take (unat (table_disk_size tab))
                (drop (unat (bytes_per_chunk_entry tab))
                   (concat (map (le_bytes (unat (bytes_per_chunk_entry tab))) (offsets_array tab))))
             = concat (map (le_bytes (unat (bytes_per_chunk_entry tab))) (tl (offsets tab)))"
    unfolding arr by (rule serialised_tail [OF ne tds])
  have lser: "length (concat (map (le_bytes (unat (bytes_per_chunk_entry tab))) (tl (offsets tab))))
      = unat (table_disk_size tab)"
    by (simp add: length_concat_le_bytes tds)
  from finish_chunk_tab_ok [OF fin [folded tab_def]] have
    r: "res = Some (cur_offset tab + table_disk_size tab)"
    and fd: "file_data w' = store_at (file_offset tab)
       (concat (map (le_bytes (unat (bytes_per_chunk_entry tab))) (tl (offsets tab)))) (file_data w)"
    and fp: "file_pos w' = length (file_data w')"
    unfolding ser by auto
  have fot: "file_offset tab = foff" by (simp add: tab_eq fo)
  have co: "cur_offset tab = sum_list cs" by (simp add: tab_eq)
  have le: "length (tl (offsets tab)) = unat (num_chunks tab) - 1" using lo by simp
  show ?thesis
    unfolding Let_def tab_def [symmetric]
    using h0 le nth co fd [unfolded fot] lser fp r by blast
qed

theorem finish_chunk_tab_serialises_witness:
  "0 < wim_resource_size (buffer_stream zero_hash 32769 []) \<and>
   unat (wim_resource_size (buffer_stream zero_hash 32769 [])) \<le> 2 ^ 64 - 32768 \<and>
   (\<exists>tab0 w1 w'.
      begin_wim_resource_chunk_tab (buffer_stream zero_hash 32769 []) (open_file [9, 9]) 2
        = (None, Some tab0, w1) \<and>
      length [5, 7 :: u64] = unat (num_chunks tab0) \<and>
      finish_wim_resource_chunk_tab (foldl record_chunk tab0 [5, 7])
          (open_file [9, 9, 0, 0, 0, 0, 1, 1, 1, 1, 1, 2, 2, 2, 2, 2, 2, 2])
        = (None, Some 16, w') \<and>
      offsets (foldl record_chunk tab0 [5, 7]) = [0, 5] \<and>
      cur_offset (foldl record_chunk tab0 [5, 7]) + table_disk_size (foldl record_chunk tab0 [5, 7]) = 16 \<and>
      file_data w' = [9, 9, 5, 0, 0, 0, 1, 1, 1, 1, 1, 2, 2, 2, 2, 2, 2, 2] \<and>
      file_pos w' = 18)"
proof -
  let ?L = "buffer_stream zero_hash 32769 []"
  let ?T = "\<lparr>file_offset = 2, num_chunks = 2, original_resource_size = 32769,
             bytes_per_chunk_entry = 4, table_disk_size = 4, cur_offset = 0, offsets = []\<rparr>"
  let ?W1 = "\<lparr>file_data = [9, 9, 2, 0, 0, 0], file_pos = 6, faults = [], heap_addr = 4096\<rparr>"
  let ?W = "open_file [9, 9, 0, 0, 0, 0, 1, 1, 1, 1, 1, 2, 2, 2, 2, 2, 2, 2]"
  let ?W' = "\<lparr>file_data = [9, 9, 5, 0, 0, 0, 1, 1, 1, 1, 1, 2, 2, 2, 2, 2, 2, 2],
              file_pos = 18, faults = [], heap_addr = 4096\<rparr>"
  have h1: "0 < wim_resource_size ?L" by code_simp
  have h2: "unat (wim_resource_size ?L) \<le> 2 ^ 64 - 32768"
    by (simp add: wim_resource_size_def buffer_stream_def)
  have h3: "begin_wim_resource_chunk_tab ?L (open_file [9, 9]) 2 = (None, Some ?T, ?W1)"
    by code_simp
  have h4: "length [5, 7 :: u64] = unat (num_chunks ?T)" by code_simp
  have h5: "finish_wim_resource_chunk_tab (foldl record_chunk ?T [5, 7]) ?W = (None, Some 16, ?W')"
    by code_simp
  have c1: "offsets (foldl record_chunk ?T [5, 7]) = [0, 5]" by code_simp
  from finish_chunk_tab_serialises [OF h1 h2 h3 h4 h5]
  have "Some (16 :: u64) =
      Some (cur_offset (foldl record_chunk ?T [5, 7]) + table_disk_size (foldl record_chunk ?T [5, 7]))"
    unfolding Let_def by blast
  then have c2: "cur_offset (foldl record_chunk ?T [5, 7]) + table_disk_size (foldl record_chunk ?T [5, 7]) = 16"
    by (simp only: option.inject)
  from h1 h2 h3 h4 h5 c1 c2 show ?thesis by simp
qed

section \<open>Locking\<close>

lemma lock_wim_cases:
  "lock_wim cb w fp = (r, w') \<Longrightarrow>
     (r = Some WIMLIB_ERR_ALREADY_LOCKED \<and> w' = w \<and> fp \<and> \<not> wim_locked w
        \<and> flock_outcome cb = FLOCK_EWOULDBLOCK)
     \<or> (r = None \<and> w' = w\<lparr>wim_locked := True\<rparr> \<and> fp \<and> \<not> wim_locked w
          \<and> flock_outcome cb = FLOCK_OK)
     \<or> (r = None \<and> w' = w \<and> (\<not> fp \<or> wim_locked w \<or> flock_outcome cb = FLOCK_OTHER_ERROR))"
  by (auto simp: lock_wim_def split: flock_result.splits if_splits)

lemma open_wim_writable_cases:
  "open_wim_writable w trunc out = (r, w', out') \<Longrightarrow>
     (r = Some WIMLIB_ERR_OPEN \<and> w' = w) \<or> (r = None \<and> w' = w\<lparr>wim_out_fp := True\<rparr>)"
  by (auto simp: open_wim_writable_def Let_def split: prod.splits if_splits)

lemma wim_find_new_streams_ret:
  "for_lookup_table_entry_prepare wid end_offset ltes idxs strms = (r, ltes', strms') \<Longrightarrow>
     r = None \<or> r = Some WIMLIB_ERR_RESOURCE_ORDER"
  by (induction wid end_offset ltes idxs strms rule: for_lookup_table_entry_prepare.induct)
     (auto simp: Let_def lte_overwrite_prepare_def split: prod.splits if_splits)

lemma inplace_prepare_Inl:
  assumes "inplace_prepare cb w fl out = Inl (r, w', out')"
  shows "r = Some WIMLIB_ERR_RESOURCE_ORDER \<or> r = Some WIMLIB_ERR_OPEN
         \<or> r = Some WIMLIB_ERR_WRITE
         \<or> (r = Some WIMLIB_ERR_ALREADY_LOCKED \<and> flock_outcome cb = FLOCK_EWOULDBLOCK)"
proof -
  obtain r1 ltes1 strms where f: "wim_find_new_streams w (old_wim_end_of w) = (r1, ltes1, strms)"
    by (cases "wim_find_new_streams w (old_wim_end_of w)") auto
  obtain r2 w2 out2 where
    op: "open_wim_writable (w\<lparr>lookup_table := ltes1\<rparr>) False out = (r2, w2, out2)"
    by (cases "open_wim_writable (w\<lparr>lookup_table := ltes1\<rparr>) False out") auto
  obtain r3 w3 where lk: "lock_wim cb w2 (wim_out_fp w2) = (r3, w3)"
    by (cases "lock_wim cb w2 (wim_out_fp w2)") auto
  obtain sought out3 where sk: "fseeko_set (unat (old_wim_end_of w)) out2 = (sought, out3)"
    by (cases "fseeko_set (unat (old_wim_end_of w)) out2") auto
  have r1: "r1 = None \<or> r1 = Some WIMLIB_ERR_RESOURCE_ORDER"
    using f wim_find_new_streams_ret unfolding wim_find_new_streams_def by blast
  show ?thesis
    using assms r1 open_wim_writable_cases [OF op] lock_wim_cases [OF lk]
    by (auto simp: inplace_prepare_def Let_def f op lk sk split: if_splits)
qed

lemma inplace_prepare_Inr:
  assumes "inplace_prepare cb w fl out = Inr (w3, fl1, old_end, strms, out3)"
  shows "\<exists>ltes1 w2 out2.
           old_end = old_wim_end_of w \<and> fl1 = inplace_write_flags w fl \<and>
           wim_find_new_streams w old_end = (None, ltes1, strms) \<and>
           open_wim_writable (w\<lparr>lookup_table := ltes1\<rparr>) False out = (None, w2, out2) \<and>
           lock_wim cb w2 (wim_out_fp w2) = (None, w3) \<and>
           fseeko_set (unat old_end) out2 = (True, out3)"
proof -
  obtain r1 ltes1 strms1 where f: "wim_find_new_streams w (old_wim_end_of w) = (r1, ltes1, strms1)"
    by (cases "wim_find_new_streams w (old_wim_end_of w)") auto
  obtain r2 w2 out2 where
    op: "open_wim_writable (w\<lparr>lookup_table := ltes1\<rparr>) False out = (r2, w2, out2)"
    by (cases "open_wim_writable (w\<lparr>lookup_table := ltes1\<rparr>) False out") auto
  obtain r3 w3' where lk: "lock_wim cb w2 (wim_out_fp w2) = (r3, w3')"
    by (cases "lock_wim cb w2 (wim_out_fp w2)") auto
  obtain sought out3' where sk: "fseeko_set (unat (old_wim_end_of w)) out2 = (sought, out3')"
    by (cases "fseeko_set (unat (old_wim_end_of w)) out2") auto
  show ?thesis
    using assms
    by (auto simp: inplace_prepare_def Let_def f op lk sk split: if_splits)
qed

lemma inplace_prepare_not_locked:
  assumes "flock_outcome cb \<noteq> FLOCK_EWOULDBLOCK"
  shows "inplace_prepare cb w fl out \<noteq> Inl (Some WIMLIB_ERR_ALREADY_LOCKED, w', out')"
  using assms inplace_prepare_Inl [of cb w fl out "Some WIMLIB_ERR_ALREADY_LOCKED" w' out']
  by auto

text \<open>
  C10. \<open>lock_wim\<close> returns \<open>WIMLIB_ERR_ALREADY_LOCKED\<close> exactly when it calls \<open>flock\<close>
  and \<open>flock\<close> fails with \<open>EWOULDBLOCK\<close>; it returns nothing else but success. When
  \<open>flock\<close> fails in any other way the result is success and the WIM is left as it
  was, not marked locked; the preparation of \<open>overwrite_wim_inplace\<close> (everything
  up to and including \<open>lock_wim\<close>) then never stops with
  \<open>WIMLIB_ERR_ALREADY_LOCKED\<close>, and when it succeeds the writing starts with the
  file open and the WIM not marked locked.
\<close>

theorem lock_wim_already_locked:
  "(fst (lock_wim cb w fp) = Some WIMLIB_ERR_ALREADY_LOCKED
      \<longleftrightarrow> fp \<and> \<not> wim_locked w \<and> flock_outcome cb = FLOCK_EWOULDBLOCK) \<and>
   (fst (lock_wim cb w fp) = None \<or> fst (lock_wim cb w fp) = Some WIMLIB_ERR_ALREADY_LOCKED) \<and>
   (fp \<and> \<not> wim_locked w \<and> flock_outcome cb = FLOCK_OTHER_ERROR
      \<longrightarrow> lock_wim cb w fp = (None, w) \<and> \<not> wim_locked (snd (lock_wim cb w fp))) \<and>
   (flock_outcome cb = FLOCK_OTHER_ERROR
      \<longrightarrow> (\<forall>fl out w' out'.
             inplace_prepare cb w fl out \<noteq> Inl (Some WIMLIB_ERR_ALREADY_LOCKED, w', out')) \<and>
          (\<forall>fl out w3 fl1 old_end strms out3.
             \<not> wim_locked w \<longrightarrow>
             inplace_prepare cb w fl out = Inr (w3, fl1, old_end, strms, out3)
               \<longrightarrow> \<not> wim_locked w3 \<and> wim_out_fp w3))"
proof -
  have a: "fst (lock_wim cb w fp) = Some WIMLIB_ERR_ALREADY_LOCKED
      \<longleftrightarrow> fp \<and> \<not> wim_locked w \<and> flock_outcome cb = FLOCK_EWOULDBLOCK"
    by (auto simp: lock_wim_def split: flock_result.splits)
  have b: "fst (lock_wim cb w fp) = None \<or> fst (lock_wim cb w fp) = Some WIMLIB_ERR_ALREADY_LOCKED"
    by (auto simp: lock_wim_def split: flock_result.splits)
  have c: "fp \<and> \<not> wim_locked w \<and> flock_outcome cb = FLOCK_OTHER_ERROR
      \<longrightarrow> lock_wim cb w fp = (None, w) \<and> \<not> wim_locked (snd (lock_wim cb w fp))"
    by (auto simp: lock_wim_def)
  have d: "flock_outcome cb = FLOCK_OTHER_ERROR
      \<longrightarrow> (\<forall>fl out w' out'.
             inplace_prepare cb w fl out \<noteq> Inl (Some WIMLIB_ERR_ALREADY_LOCKED, w', out'))"
    using inplace_prepare_not_locked [of cb w] by simp
  have e: "flock_outcome cb = FLOCK_OTHER_ERROR
      \<longrightarrow> (\<forall>fl out w3 fl1 old_end strms out3.
             \<not> wim_locked w \<longrightarrow>
             inplace_prepare cb w fl out = Inr (w3, fl1, old_end, strms, out3)
               \<longrightarrow> \<not> wim_locked w3 \<and> wim_out_fp w3)"
  proof (intro impI allI)
    fix fl out w3 fl1 old_end strms out3
    assume o: "flock_outcome cb = FLOCK_OTHER_ERROR" and nl: "\<not> wim_locked w"
      and p: "inplace_prepare cb w fl out = Inr (w3, fl1, old_end, strms, out3)"
    from inplace_prepare_Inr [OF p] obtain ltes1 w2 out2 where
      op: "open_wim_writable (w\<lparr>lookup_table := ltes1\<rparr>) False out = (None, w2, out2)"
      and lk: "lock_wim cb w2 (wim_out_fp w2) = (None, w3)"
      by blast
    from open_wim_writable_cases [OF op] have w2: "w2 = w\<lparr>lookup_table := ltes1, wim_out_fp := True\<rparr>"
      by simp
    from lock_wim_cases [OF lk] o have "w3 = w2" by auto
    with w2 nl show "\<not> wim_locked w3 \<and> wim_out_fp w3" by simp
  qed
  from a b c d e show ?thesis by blast
qed

theorem lock_wim_already_locked_witness:
  "flock_outcome (example_collaborators\<lparr>flock_outcome := FLOCK_OTHER_ERROR\<rparr>) = FLOCK_OTHER_ERROR \<and>
   \<not> wim_locked (example_wim [] True) \<and>
   lock_wim (example_collaborators\<lparr>flock_outcome := FLOCK_OTHER_ERROR\<rparr>) (example_wim [] True) True
     = (None, example_wim [] True) \<and>
   fst (lock_wim (example_collaborators\<lparr>flock_outcome := FLOCK_EWOULDBLOCK\<rparr>)
          (example_wim [] True) True) = Some WIMLIB_ERR_ALREADY_LOCKED \<and>
   (\<exists>w3 fl1 old_end strms out3.
      inplace_prepare (example_collaborators\<lparr>flock_outcome := FLOCK_OTHER_ERROR\<rparr>)
          (example_wim [] True) {} (open_file [72, 76, 88])
        = Inr (w3, fl1, old_end, strms, out3) \<and>
      \<not> wim_locked w3 \<and> wim_out_fp w3)"
proof -
  let ?cb = "example_collaborators\<lparr>flock_outcome := FLOCK_OTHER_ERROR\<rparr>"
  let ?cb2 = "example_collaborators\<lparr>flock_outcome := FLOCK_EWOULDBLOCK\<rparr>"
  let ?w = "example_wim [] True"
  have o: "flock_outcome ?cb = FLOCK_OTHER_ERROR" by simp
  have nl: "\<not> wim_locked ?w" by (simp add: example_wim_def)
  note t = lock_wim_already_locked [of ?cb ?w True]
  from t o nl have l: "lock_wim ?cb ?w True = (None, ?w)" by blast
  have b: "flock_outcome ?cb2 = FLOCK_EWOULDBLOCK" by simp
  from lock_wim_already_locked [of ?cb2 ?w True] b nl
  have l2: "fst (lock_wim ?cb2 ?w True) = Some WIMLIB_ERR_ALREADY_LOCKED" by blast
  have p: "inplace_prepare ?cb ?w {} (open_file [72, 76, 88])
      = Inr (?w\<lparr>wim_out_fp := True\<rparr>, {}, 3, [],
             \<lparr>file_data = [72, 76, 88], file_pos = 3, faults = [], heap_addr = 4096\<rparr>)"
    by code_simp
  from t o nl p have "\<not> wim_locked (?w\<lparr>wim_out_fp := True\<rparr>) \<and> wim_out_fp (?w\<lparr>wim_out_fp := True\<rparr>)"
    by blast
  with o nl l l2 p show ?thesis by blast
qed

section \<open>The choice of the overwrite strategy\<close>

text \<open>
  C6. For a WIM with a file name and a single part, \<open>wimlib_overwrite\<close> goes straight
  to the rebuild through a temporary file when the \<open>REBUILD\<close> flag is set or a
  deletion occurred without \<open>SOFT_DELETE\<close>; otherwise it overwrites in place, and
  then rebuilds exactly when the in-place attempt returns
  \<open>WIMLIB_ERR_RESOURCE_ORDER\<close>: any other result of the in-place attempt is the result
  of the call, whatever the rebuild would do.
\<close>

theorem wimlib_overwrite_strategy:
  assumes "filename w \<noteq> None" and "total_parts (hdr w) = 1"
  shows "let f = fl \<inter> WIMLIB_WRITE_MASK_PUBLIC;
             rebuild_first = (WIMLIB_WRITE_FLAG_REBUILD \<in> f
                              \<or> (deletion_occurred w \<and> WIMLIB_WRITE_FLAG_SOFT_DELETE \<notin> f))
         in (rebuild_first \<longrightarrow>
               wimlib_overwrite via_tmpfile e cb w fl nt out = via_tmpfile w f nt out) \<and>
            (\<not> rebuild_first \<longrightarrow>
               (overwrite_wim_inplace e cb w f nt out = None \<longrightarrow>
                  wimlib_overwrite via_tmpfile e cb w fl nt out = None) \<and>
               (\<forall>r w1 out1. overwrite_wim_inplace e cb w f nt out = Some (r, w1, out1) \<longrightarrow>
                  (r = Some WIMLIB_ERR_RESOURCE_ORDER \<longrightarrow>
                     wimlib_overwrite via_tmpfile e cb w fl nt out = via_tmpfile w1 f nt out1) \<and>
                  (r \<noteq> Some WIMLIB_ERR_RESOURCE_ORDER \<longrightarrow>
                     wimlib_overwrite via_tmpfile e cb w fl nt out = Some (r, w1, out1))))"
  using assms by (auto simp: wimlib_overwrite_def Let_def)

section \<open>An empty resource\<close>

text \<open>
  C4 (as amended). When a stream has no bytes to copy (its size is 0, or, for a raw
  copy, its stored size is 0) and \<open>ftello\<close> succeeds, \<open>write_wim_resource\<close> returns
  success, leaves the file and the lookup table entry as they were, and leaves what
  \<open>out_res_entry\<close> points to untouched: the entry is not filled in.
\<close>

theorem write_wim_resource_nothing_to_copy:
  assumes pos: "ftello w = (Some foff, w0)"
      and empty: "(if wim_resource_compression_type lte = out_ctype
                       \<and> out_ctype \<noteq> WIMLIB_COMPRESSION_TYPE_NONE
                       \<and> WIMLIB_RESOURCE_FLAG_RECOMPRESS \<notin> fl
                   then wim_resource_compressed_size lte else wim_resource_size lte) = 0"
  shows "write_wim_resource e lte w out_ctype out_res_entry fl = (None, lte, w0, out_res_entry) \<and>
         file_data w0 = file_data w \<and> file_pos w0 = file_pos w"
proof -
  have "file_data w0 = file_data w \<and> file_pos w0 = file_pos w"
    using pos by (auto simp: ftello_def next_fault_def Let_def split: list.splits if_splits)
  moreover have "write_wim_resource e lte w out_ctype out_res_entry fl = (None, lte, w0, out_res_entry)"
    using empty by (subst write_wim_resource.simps) (simp add: pos Let_def)
  ultimately show ?thesis by simp
qed

theorem wimlib_overwrite_strategy_witness:
  "filename (example_wim [] True) \<noteq> None \<and>
   total_parts (hdr (example_wim [] True)) = 1 \<and>
   wimlib_overwrite (\<lambda>w f nt out. Some (Some WIMLIB_ERR_RENAME, w, out))
       (example_env keep_first_byte) example_collaborators (example_wim [] True)
       {WIMLIB_WRITE_FLAG_REBUILD} 1 (open_file [72, 76, 88])
     = Some (Some WIMLIB_ERR_RENAME, example_wim [] True, open_file [72, 76, 88]) \<and>
   wimlib_overwrite (\<lambda>w f nt out. Some (Some WIMLIB_ERR_RENAME, w, out))
       (example_env keep_first_byte) (example_collaborators\<lparr>flock_outcome := FLOCK_EWOULDBLOCK\<rparr>)
       (example_wim [] True) {} 1 (open_file [72, 76, 88])
     = Some (Some WIMLIB_ERR_ALREADY_LOCKED, example_wim [] True,
             \<lparr>file_data = [72, 76, 88], file_pos = 0, faults = [], heap_addr = 4096\<rparr>)"
proof -
  let ?via = "\<lambda>(w :: WIMStruct) (f :: write_flag set) (nt :: nat) (out :: world).
                 Some (Some WIMLIB_ERR_RENAME, w, out)"
  let ?e = "example_env keep_first_byte"
  let ?cb2 = "example_collaborators\<lparr>flock_outcome := FLOCK_EWOULDBLOCK\<rparr>"
  let ?w = "example_wim [] True"
  let ?out = "open_file [72, 76, 88]"
  have h1: "filename ?w \<noteq> None" by (simp add: example_wim_def)
  have h2: "total_parts (hdr ?w) = 1" by (simp add: example_wim_def)
  have nd: "\<not> deletion_occurred ?w" by (simp add: example_wim_def)
  from wimlib_overwrite_strategy [OF h1 h2, of "{WIMLIB_WRITE_FLAG_REBUILD}" ?via ?e example_collaborators 1 ?out]
  have a: "wimlib_overwrite ?via ?e example_collaborators ?w {WIMLIB_WRITE_FLAG_REBUILD} 1 ?out
      = Some (Some WIMLIB_ERR_RENAME, ?w, ?out)"
    by (simp add: Let_def WIMLIB_WRITE_MASK_PUBLIC_def)
  have ip: "overwrite_wim_inplace ?e ?cb2 ?w ({} \<inter> WIMLIB_WRITE_MASK_PUBLIC) 1 ?out
      = Some (Some WIMLIB_ERR_ALREADY_LOCKED, ?w, \<lparr>file_data = [72, 76, 88], file_pos = 0, faults = [], heap_addr = 4096\<rparr>)"
    by code_simp
  from wimlib_overwrite_strategy [OF h1 h2, of "{}" ?via ?e ?cb2 1 ?out] nd ip
  have b: "wimlib_overwrite ?via ?e ?cb2 ?w {} 1 ?out
      = Some (Some WIMLIB_ERR_ALREADY_LOCKED, ?w, \<lparr>file_data = [72, 76, 88], file_pos = 0, faults = [], heap_addr = 4096\<rparr>)"
    by (simp add: Let_def)
  from h1 h2 a b show ?thesis by blast
qed

theorem write_wim_resource_nothing_to_copy_witness:
  "ftello (open_file [9, 9]) = (Some 2, open_file [9, 9]) \<and>
   wim_resource_size (buffer_stream zero_hash 0 []) = 0 \<and>
   write_wim_resource (example_env keep_first_byte) (buffer_stream zero_hash 0 []) (open_file [9, 9])
       WIMLIB_COMPRESSION_TYPE_LZX (Some zero_entry) {}
     = (None, buffer_stream zero_hash 0 [], open_file [9, 9], Some zero_entry)"
proof -
  let ?L = "buffer_stream zero_hash 0 []"
  have h1: "ftello (open_file [9, 9]) = (Some 2, open_file [9, 9])" by code_simp
  have s: "wim_resource_size ?L = 0" by code_simp
  have h2: "(if wim_resource_compression_type ?L = WIMLIB_COMPRESSION_TYPE_LZX
                \<and> WIMLIB_COMPRESSION_TYPE_LZX \<noteq> WIMLIB_COMPRESSION_TYPE_NONE
                \<and> WIMLIB_RESOURCE_FLAG_RECOMPRESS \<notin> {}
             then wim_resource_compressed_size ?L else wim_resource_size ?L) = 0"
    by code_simp
  from write_wim_resource_nothing_to_copy [OF h1 h2] h1 s show ?thesis by blast
qed

text \<open>
  C4 as stated fails: for a stream of size 0 written at file offset 2, a zeroed
  entry passed in comes back with offset 0, not the file offset; and an entry that
  was not zero comes back as it was, not zeroed.
\<close>

theorem write_wim_resource_empty_entry_untouched:
  "write_wim_resource (example_env keep_first_byte) (buffer_stream zero_hash 0 []) (open_file [9, 9])
       WIMLIB_COMPRESSION_TYPE_LZX (Some zero_entry) {}
     = (None, buffer_stream zero_hash 0 [], open_file [9, 9], Some zero_entry) \<and>
   file_pos (open_file [9, 9]) = 2 \<and>
   offset zero_entry \<noteq> of_nat (file_pos (open_file [9, 9])) \<and>
   write_wim_resource (example_env keep_first_byte) (buffer_stream zero_hash 0 []) (open_file [9, 9])
       WIMLIB_COMPRESSION_TYPE_LZX
       (Some \<lparr>offset = 7, size_e = 5, original_size = 5, flags = {WIM_RESHDR_FLAG_COMPRESSED}\<rparr>) {}
     = (None, buffer_stream zero_hash 0 [], open_file [9, 9],
        Some \<lparr>offset = 7, size_e = 5, original_size = 5, flags = {WIM_RESHDR_FLAG_COMPRESSED}\<rparr>)"
  by code_simp

section \<open>One thread or several\<close>

lemma total_compression_bytes_sum:
  "unat (total_compression_bytes out_ctype fl ltes strms acc) =
     (unat acc + (\<Sum>i\<leftarrow>strms. if needs_compression out_ctype fl (ltes ! i)
                            then unat (wim_resource_size (ltes ! i)) else 0)) mod 2 ^ 64"
proof (induction strms arbitrary: acc)
  case Nil
  have "unat acc < 2 ^ 64" using unsigned_less [of acc] by simp
  then show ?case by simp
next
  case (Cons i strms)
  show ?case
  proof (cases "needs_compression out_ctype fl (ltes ! i)")
    case True
    have "unat (acc + wim_resource_size (ltes ! i)) =
            (unat acc + unat (wim_resource_size (ltes ! i))) mod 2 ^ 64"
      by (simp add: unat_word_ariths)
    with Cons.IH [of "acc + wim_resource_size (ltes ! i)"] True show ?thesis
      by (simp add: mod_add_left_eq add.assoc)
  next
    case False
    with Cons.IH [of acc] show ?thesis by simp
  qed
qed

lemma parallel_attempt_return:
  assumes "parallel_attempt e ltes strms w out_ctype fl nt = Some (RETURN_RET r ltes1 w1)"
  shows "r \<noteq> Some WIMLIB_ERR_NOMEM \<and> r \<noteq> Some MINUS_ONE \<and>
         (\<exists>w4 n. main_writer_thread_proc e ltes strms w4 out_ctype n fl = Some (r, ltes1, w1))"
  using assms unfolding parallel_attempt_def Let_def
  by (auto split: if_splits prod.splits option.splits)

lemma parallel_threads_fail:
  assumes "nt \<noteq> 0 \<or> (1 \<le> nprocs e \<and> nprocs e \<le> UINT_MAX)"
      and "next_fault w = (False, w1)" and "next_fault w1 = (False, w2)"
      and "next_fault w2 = (False, w3)"
      and "create_threads (if nt = 0 then nat (nprocs e) else nt) w3 = (False, w4)"
  shows "parallel_attempt e ltes strms w out_ctype fl nt = Some (OUT_SERIAL ltes w4 False)"
  using assms by (auto simp: parallel_attempt_def Let_def)

lemma parallel_nomem:
  assumes "nt \<noteq> 0 \<or> (1 \<le> nprocs e \<and> nprocs e \<le> UINT_MAX)"
      and "next_fault w = (False, w1)" and "next_fault w1 = (False, w2)"
      and "next_fault w2 = (False, w3)"
      and "create_threads (if nt = 0 then nat (nprocs e) else nt) w3 = (True, w4)"
      and "main_writer_thread_proc e ltes strms w4 out_ctype
             ((if nt = 0 then nat (nprocs e) else nt) * 2) fl = Some (Some WIMLIB_ERR_NOMEM, ltes5, w5)"
  shows "\<exists>b. parallel_attempt e ltes strms w out_ctype fl nt = Some (OUT_SERIAL ltes5 w5 b)"
  using assms by (auto simp: parallel_attempt_def Let_def)

lemma parallel_alloc_fails:
  assumes "fst (next_fault w) \<or> fst (next_fault (snd (next_fault w)))
           \<or> fst (next_fault (snd (next_fault (snd (next_fault w)))))"
  shows "\<exists>w'. parallel_attempt e ltes strms w out_ctype fl nt = Some (OUT_SERIAL ltes w' False)"
  using assms by (auto simp: parallel_attempt_def Let_def split: prod.splits)


text \<open>
  C7. \<open>write_stream_list\<close> calls \<open>write_stream_list_parallel\<close> exactly when the sum
  it has accumulated is at least 1000000 and \<open>num_threads\<close> is not 1, and the serial
  writer otherwise. The sum is that of the sizes of the streams that need
  compression (\<open>out_ctype\<close> not \<open>NONE\<close>, and a different compression type or the
  \<open>RECOMPRESS\<close> flag), taken modulo \<open>2^64\<close>. \<open>write_stream_list_parallel\<close> returns a
  code of its own only when \<open>main_writer_thread_proc\<close> has returned it and it is
  neither \<open>WIMLIB_ERR_NOMEM\<close> nor \<open>-1\<close>; when an allocation or the creation of a
  thread fails, or \<open>main_writer_thread_proc\<close> returns \<open>WIMLIB_ERR_NOMEM\<close>, it arrives
  at \<open>out_serial\<close>, where the serial writer is called.
\<close>

theorem write_stream_list_policy:
  "(write_stream_list e ltes strms w out_ctype fl nt =
      (if 1000000 \<le> total_compression_bytes out_ctype fl ltes strms 0 \<and> nt \<noteq> 1
       then write_stream_list_parallel e ltes strms w out_ctype fl nt
       else Some (write_stream_list_serial e ltes strms w out_ctype fl))) \<and>
   unat (total_compression_bytes out_ctype fl ltes strms 0) =
     (\<Sum>i\<leftarrow>strms. if out_ctype \<noteq> WIMLIB_COMPRESSION_TYPE_NONE \<and>
                       (wim_resource_compression_type (ltes ! i) \<noteq> out_ctype \<or>
                        WIMLIB_WRITE_FLAG_RECOMPRESS \<in> fl)
                    then unat (wim_resource_size (ltes ! i)) else 0) mod 2 ^ 64 \<and>
   write_stream_list_parallel e ltes strms w out_ctype fl nt =
     (case parallel_attempt e ltes strms w out_ctype fl nt of
        None \<Rightarrow> None
      | Some (RETURN_RET r ltes1 w') \<Rightarrow> Some (r, ltes1, w')
      | Some (OUT_SERIAL ltes1 w' links_overwritten) \<Rightarrow>
          if links_overwritten then None
          else Some (write_stream_list_serial e ltes1 strms w' out_ctype fl)) \<and>
   (\<forall>r ltes1 w'.
      parallel_attempt e ltes strms w out_ctype fl nt = Some (RETURN_RET r ltes1 w') \<longrightarrow>
      r \<noteq> Some WIMLIB_ERR_NOMEM \<and> r \<noteq> Some MINUS_ONE \<and>
      (\<exists>w4 n. main_writer_thread_proc e ltes strms w4 out_ctype n fl = Some (r, ltes1, w'))) \<and>
   (fst (next_fault w) \<or> fst (next_fault (snd (next_fault w)))
      \<or> fst (next_fault (snd (next_fault (snd (next_fault w))))) \<longrightarrow>
      (\<exists>w'. parallel_attempt e ltes strms w out_ctype fl nt = Some (OUT_SERIAL ltes w' False))) \<and>
   (\<forall>w1 w2 w3 w4.
      (nt \<noteq> 0 \<or> (1 \<le> nprocs e \<and> nprocs e \<le> UINT_MAX)) \<and>
      next_fault w = (False, w1) \<and> next_fault w1 = (False, w2) \<and> next_fault w2 = (False, w3) \<longrightarrow>
      (create_threads (if nt = 0 then nat (nprocs e) else nt) w3 = (False, w4) \<longrightarrow>
         parallel_attempt e ltes strms w out_ctype fl nt = Some (OUT_SERIAL ltes w4 False)) \<and>
      (\<forall>ltes5 w5.
         create_threads (if nt = 0 then nat (nprocs e) else nt) w3 = (True, w4) \<and>
         main_writer_thread_proc e ltes strms w4 out_ctype
             ((if nt = 0 then nat (nprocs e) else nt) * 2) fl
           = Some (Some WIMLIB_ERR_NOMEM, ltes5, w5) \<longrightarrow>
         (\<exists>links_overwritten.
            parallel_attempt e ltes strms w out_ctype fl nt
              = Some (OUT_SERIAL ltes5 w5 links_overwritten))))"
proof -
  have a: "write_stream_list e ltes strms w out_ctype fl nt =
      (if 1000000 \<le> total_compression_bytes out_ctype fl ltes strms 0 \<and> nt \<noteq> 1
       then write_stream_list_parallel e ltes strms w out_ctype fl nt
       else Some (write_stream_list_serial e ltes strms w out_ctype fl))"
    by (simp add: write_stream_list_def)
  have b: "unat (total_compression_bytes out_ctype fl ltes strms 0) =
     (\<Sum>i\<leftarrow>strms. if out_ctype \<noteq> WIMLIB_COMPRESSION_TYPE_NONE \<and>
                       (wim_resource_compression_type (ltes ! i) \<noteq> out_ctype \<or>
                        WIMLIB_WRITE_FLAG_RECOMPRESS \<in> fl)
                    then unat (wim_resource_size (ltes ! i)) else 0) mod 2 ^ 64"
    using total_compression_bytes_sum [of out_ctype fl ltes strms 0]
    by (simp add: needs_compression_def)
  have c: "write_stream_list_parallel e ltes strms w out_ctype fl nt =
     (case parallel_attempt e ltes strms w out_ctype fl nt of
        None \<Rightarrow> None
      | Some (RETURN_RET r ltes1 w') \<Rightarrow> Some (r, ltes1, w')
      | Some (OUT_SERIAL ltes1 w' links_overwritten) \<Rightarrow>
          if links_overwritten then None
          else Some (write_stream_list_serial e ltes1 strms w' out_ctype fl))"
    by (simp add: write_stream_list_parallel_def)
  from a b c parallel_attempt_return [of e ltes strms w out_ctype fl nt]
    parallel_alloc_fails [of w e ltes strms out_ctype fl nt]
    parallel_threads_fail [of nt e w _ _ _ _ ltes strms out_ctype fl]
    parallel_nomem [of nt e w _ _ _ _ ltes strms out_ctype fl]
  show ?thesis by blast
qed

theorem write_stream_list_policy_witness:
  "1000000 \<le> total_compression_bytes WIMLIB_COMPRESSION_TYPE_LZX {} [stream_in_wim 1000000] [0] 0 \<and>
   (2 :: nat) \<noteq> 1 \<and>
   write_stream_list (example_env keep_first_byte) [stream_in_wim 1000000] [0]
       ((open_file [9, 9])\<lparr>faults := [False, False, False, True]\<rparr>)
       WIMLIB_COMPRESSION_TYPE_LZX {} 2
     = Some (write_stream_list_serial (example_env keep_first_byte) [stream_in_wim 1000000] [0]
               (open_file [9, 9]) WIMLIB_COMPRESSION_TYPE_LZX {}) \<and>
   write_stream_list (example_env keep_first_byte) [stream_in_wim 1000000] [0]
       ((open_file [9, 9])\<lparr>faults := [False, False, False, False, False, True]\<rparr>)
       WIMLIB_COMPRESSION_TYPE_LZX {} 2
     = Some (write_stream_list_serial (example_env keep_first_byte) [stream_in_wim 1000000] [0]
               (open_file [9, 9]) WIMLIB_COMPRESSION_TYPE_LZX {})"
proof -
  let ?E = "example_env keep_first_byte"
  let ?L = "[stream_in_wim 1000000]"
  let ?C = "WIMLIB_COMPRESSION_TYPE_LZX"
  let ?W = "\<lambda>fs. \<lparr>file_data = [9, 9], file_pos = 2, faults = fs, heap_addr = 4096\<rparr>"
  have w: "open_file [9, 9] = ?W []" by (simp add: open_file_def)
  have big: "1000000 \<le> total_compression_bytes ?C {} ?L [0] 0"
    by (simp add: needs_compression_def wim_resource_compression_type_def wim_resource_size_def
                  stream_in_wim_def buffer_stream_def)
  have nt: "(2 :: nat) \<noteq> 0 \<or> (1 \<le> nprocs ?E \<and> nprocs ?E \<le> UINT_MAX)" by simp
  have f1: "next_fault (?W [False, False, False, True]) = (False, ?W [False, False, True])"
    and f2: "next_fault (?W [False, False, True]) = (False, ?W [False, True])"
    and f3: "next_fault (?W [False, True]) = (False, ?W [True])"
    by (simp_all add: next_fault_def)
  have ct: "create_threads (if (2 :: nat) = 0 then nat (nprocs ?E) else 2) (?W [True]) = (False, ?W [])"
    by (simp add: numeral_2_eq_2 next_fault_def)
  note t1 = write_stream_list_policy [of ?E ?L "[0]" "?W [False, False, False, True]" ?C "{}" 2]
  from t1 nt f1 f2 f3 ct
  have p1: "parallel_attempt ?E ?L [0] (?W [False, False, False, True]) ?C {} 2
              = Some (OUT_SERIAL ?L (?W []) False)"
    by blast
  from t1 have
    "write_stream_list_parallel ?E ?L [0] (?W [False, False, False, True]) ?C {} 2 =
       (case parallel_attempt ?E ?L [0] (?W [False, False, False, True]) ?C {} 2 of
          None \<Rightarrow> None
        | Some (RETURN_RET r ltes1 w') \<Rightarrow> Some (r, ltes1, w')
        | Some (OUT_SERIAL ltes1 w' links_overwritten) \<Rightarrow>
            if links_overwritten then None
            else Some (write_stream_list_serial ?E ltes1 [0] w' ?C {}))"
    by blast
  then have q1: "write_stream_list_parallel ?E ?L [0] (?W [False, False, False, True]) ?C {} 2
      = Some (write_stream_list_serial ?E ?L [0] (?W []) ?C {})"
    by (simp only: p1 option.case parallel_exit.case if_False)
  from t1 big have r1: "write_stream_list ?E ?L [0] (?W [False, False, False, True]) ?C {} 2
      = write_stream_list_parallel ?E ?L [0] (?W [False, False, False, True]) ?C {} 2"
    by simp
  have g1: "next_fault (?W [False, False, False, False, False, True])
              = (False, ?W [False, False, False, False, True])"
    and g2: "next_fault (?W [False, False, False, False, True]) = (False, ?W [False, False, False, True])"
    and g3: "next_fault (?W [False, False, False, True]) = (False, ?W [False, False, True])"
    by (simp_all add: next_fault_def)
  have ct2: "create_threads (if (2 :: nat) = 0 then nat (nprocs ?E) else 2) (?W [False, False, True])
               = (True, ?W [True])"
    by (simp add: numeral_2_eq_2 next_fault_def)
  have mw: "main_writer_thread_proc ?E ?L [0] (?W [True]) ?C
              ((if (2 :: nat) = 0 then nat (nprocs ?E) else 2) * 2) {}
            = Some (Some WIMLIB_ERR_NOMEM, ?L, ?W [])"
    by (simp add: main_writer_thread_proc_def next_fault_def)
  have nr: "\<not> main_writer_reaches_loop (?W [True]) ((if (2 :: nat) = 0 then nat (nprocs ?E) else 2) * 2)"
    by (simp add: main_writer_reaches_loop_def next_fault_def)
  note t2 = write_stream_list_policy
      [of ?E ?L "[0]" "?W [False, False, False, False, False, True]" ?C "{}" 2]
  from t2 nt g1 g2 g3 ct2 mw
  obtain b where p2: "parallel_attempt ?E ?L [0] (?W [False, False, False, False, False, True]) ?C {} 2
              = Some (OUT_SERIAL ?L (?W []) b)"
    by blast
  have p2': "parallel_attempt ?E ?L [0] (?W [False, False, False, False, False, True]) ?C {} 2
              = Some (OUT_SERIAL ?L (?W []) False)"
    by (simp add: parallel_attempt_def Let_def next_fault_def numeral_2_eq_2
                  main_writer_thread_proc_def main_writer_reaches_loop_def)
  from t2 have
    "write_stream_list_parallel ?E ?L [0] (?W [False, False, False, False, False, True]) ?C {} 2 =
       (case parallel_attempt ?E ?L [0] (?W [False, False, False, False, False, True]) ?C {} 2 of
          None \<Rightarrow> None
        | Some (RETURN_RET r ltes1 w') \<Rightarrow> Some (r, ltes1, w')
        | Some (OUT_SERIAL ltes1 w' links_overwritten) \<Rightarrow>
            if links_overwritten then None
            else Some (write_stream_list_serial ?E ltes1 [0] w' ?C {}))"
    by blast
  then have q2: "write_stream_list_parallel ?E ?L [0] (?W [False, False, False, False, False, True]) ?C {} 2
      = Some (write_stream_list_serial ?E ?L [0] (?W []) ?C {})"
    by (simp only: p2' option.case parallel_exit.case if_False)
  from t2 big have r2: "write_stream_list ?E ?L [0] (?W [False, False, False, False, False, True]) ?C {} 2
      = write_stream_list_parallel ?E ?L [0] (?W [False, False, False, False, False, True]) ?C {} 2"
    by simp
  have u1: "(open_file [9, 9])\<lparr>faults := [False, False, False, True]\<rparr> = ?W [False, False, False, True]"
    and u2: "(open_file [9, 9])\<lparr>faults := [False, False, False, False, False, True]\<rparr>
               = ?W [False, False, False, False, False, True]"
    by (simp_all add: open_file_def)
  from big r1 q1 r2 q2 show ?thesis
    unfolding u1 u2 w by simp
qed

text \<open>
  C7 as stated fails: two streams that need compression, each of declared size
  \<open>2^63\<close>, have a total size of \<open>2^64\<close>, and \<open>num_threads\<close> is 2, yet the sum that
  \<open>write_stream_list\<close> has accumulated is 0 and it calls the serial writer.
\<close>

theorem write_stream_list_total_wraps:
  "needs_compression WIMLIB_COMPRESSION_TYPE_LZX {} (stream_in_wim 9223372036854775808) \<and>
   1000000 \<le> unat (wim_resource_size (stream_in_wim 9223372036854775808)) +
              unat (wim_resource_size (stream_in_wim 9223372036854775808)) \<and>
   (2 :: nat) \<noteq> 1 \<and>
   total_compression_bytes WIMLIB_COMPRESSION_TYPE_LZX {}
     [stream_in_wim 9223372036854775808, stream_in_wim 9223372036854775808] [0, 1] 0 = 0 \<and>
   write_stream_list (example_env keep_first_byte)
       [stream_in_wim 9223372036854775808, stream_in_wim 9223372036854775808] [0, 1]
       (open_file [9, 9]) WIMLIB_COMPRESSION_TYPE_LZX {} 2
     = Some (write_stream_list_serial (example_env keep_first_byte)
               [stream_in_wim 9223372036854775808, stream_in_wim 9223372036854775808] [0, 1]
               (open_file [9, 9]) WIMLIB_COMPRESSION_TYPE_LZX {})"
proof -
  let ?s = "stream_in_wim 9223372036854775808"
  have n: "needs_compression WIMLIB_COMPRESSION_TYPE_LZX {} ?s"
    by (simp add: needs_compression_def wim_resource_compression_type_def
                  stream_in_wim_def buffer_stream_def)
  have sz: "wim_resource_size ?s = 9223372036854775808"
    by (simp add: wim_resource_size_def stream_in_wim_def buffer_stream_def)
  have t: "total_compression_bytes WIMLIB_COMPRESSION_TYPE_LZX {} [?s, ?s] [0, 1] 0 = 0"
    by (simp add: n sz)
  have s2: "1000000 \<le> unat (wim_resource_size ?s) + unat (wim_resource_size ?s)"
    by (simp add: sz)
  have two: "(2 :: nat) \<noteq> 1" by simp
  have ws: "write_stream_list (example_env keep_first_byte) [?s, ?s] [0, 1]
       (open_file [9, 9]) WIMLIB_COMPRESSION_TYPE_LZX {} 2
     = Some (write_stream_list_serial (example_env keep_first_byte) [?s, ?s] [0, 1]
               (open_file [9, 9]) WIMLIB_COMPRESSION_TYPE_LZX {})"
    unfolding write_stream_list_def t by simp
  from n s2 two t ws show ?thesis by (intro conjI)
qed

section \<open>Resources that do not get smaller\<close>







section \<open>The digest of a stream in the parallel pipeline\<close>

text \<open>
  C1. In the main thread of the parallel pipeline the digest of a stream whose
  chunks have all been read is compared with the hash of its lookup table entry,
  and that is all: the outcome is \<open>WIMLIB_ERR_INVALID_RESOURCE_HASH\<close> whenever the
  two differ, and the hash of the entry is never replaced. So a stream whose
  declared hash is all zero is refused, its hash stays zero and nothing is written,
  where the serial writer adopts the digest and writes the stream. The example is a
  stream of three bytes with an all-zero hash.
\<close>

theorem parallel_zero_hash_refused:
  "finish_next_stream e (st\<lparr>next_lte := Some i\<rparr>) =
     (if hash (streams st ! i) = sha1 e (next_sha_ctx st) then None
      else Some WIMLIB_ERR_INVALID_RESOURCE_HASH,
      st\<lparr>next_lte := Some i,
         streams := (streams st)[i := end_wim_resource_read (streams st ! i)]\<rparr>) \<and>
   hash (end_wim_resource_read (streams st ! i)) = hash (streams st ! i) \<and>
   is_zero_hash (hash (buffer_stream zero_hash 3 [1, 2, 3])) \<and>
   main_writer_thread_proc (example_env keep_first_byte)
       [buffer_stream zero_hash 3 [1, 2, 3]] [0] (open_file [9, 9])
       WIMLIB_COMPRESSION_TYPE_LZX 4 {}
     = Some (Some WIMLIB_ERR_INVALID_RESOURCE_HASH,
             [buffer_stream zero_hash 3 [1, 2, 3]], open_file [9, 9]) \<and>
   write_stream_list_serial (example_env keep_first_byte)
       [buffer_stream zero_hash 3 [1, 2, 3]] [0] (open_file [9, 9])
       WIMLIB_COMPRESSION_TYPE_LZX {}
     = (None,
        [(buffer_stream zero_hash 3 [1, 2, 3])
           \<lparr>hash := sha1 (example_env keep_first_byte) [1, 2, 3],
            output_resource_entry :=
              \<lparr>offset = 2, size_e = 1, original_size = 3,
                 flags = {WIM_RESHDR_FLAG_COMPRESSED}\<rparr>\<rparr>],
        \<lparr>file_data = [9, 9, 1], file_pos = 3, faults = [], heap_addr = 4096\<rparr>)"
proof -
  have h: "hash (end_wim_resource_read (streams st ! i)) = hash (streams st ! i)"
    by (simp add: end_wim_resource_read_def)
  have a: "finish_next_stream e (st\<lparr>next_lte := Some i\<rparr>) =
     (if hash (streams st ! i) = sha1 e (next_sha_ctx st) then None
      else Some WIMLIB_ERR_INVALID_RESOURCE_HASH,
      st\<lparr>next_lte := Some i,
         streams := (streams st)[i := end_wim_resource_read (streams st ! i)]\<rparr>)"
    by (simp add: finish_next_stream_def Let_def hashes_equal_def sha1_final_def h)
  have z: "is_zero_hash (hash (buffer_stream zero_hash 3 [1, 2, 3]))" by code_simp
  have p: "main_writer_thread_proc (example_env keep_first_byte)
       [buffer_stream zero_hash 3 [1, 2, 3]] [0] (open_file [9, 9])
       WIMLIB_COMPRESSION_TYPE_LZX 4 {}
     = Some (Some WIMLIB_ERR_INVALID_RESOURCE_HASH,
             [buffer_stream zero_hash 3 [1, 2, 3]], open_file [9, 9])"
    by code_simp
  have s: "write_stream_list_serial (example_env keep_first_byte)
       [buffer_stream zero_hash 3 [1, 2, 3]] [0] (open_file [9, 9])
       WIMLIB_COMPRESSION_TYPE_LZX {}
     = (None,
        [(buffer_stream zero_hash 3 [1, 2, 3])
           \<lparr>hash := sha1 (example_env keep_first_byte) [1, 2, 3],
            output_resource_entry :=
              \<lparr>offset = 2, size_e = 1, original_size = 3,
                 flags = {WIM_RESHDR_FLAG_COMPRESSED}\<rparr>\<rparr>],
        \<lparr>file_data = [9, 9, 1], file_pos = 3, faults = [], heap_addr = 4096\<rparr>)"
    by code_simp
  from a h z p s show ?thesis by (intro conjI)
qed

section \<open>A failed overwrite in place\<close>

lemma length_truncate_to: "length (truncate_to n d) = n"
  by (simp add: truncate_to_def)

lemma truncate_to_restores:
  assumes "length d0 = n" and "take n d = d0"
  shows "truncate_to n d = d0"
proof -
  have "length (take n d) = n" using assms by simp
  then have "n \<le> length d" by simp
  with assms show ?thesis by (simp add: truncate_to_def)
qed

lemma inplace_no_lookup_table:
  "WIMLIB_WRITE_FLAG_NO_LOOKUP_TABLE \<in> inplace_write_flags w fl \<longleftrightarrow>
     WIMLIB_WRITE_FLAG_NO_LOOKUP_TABLE \<in> fl
     \<or> (\<not> deletion_occurred w \<and> \<not> any_images_modified w)"
  by (auto simp: inplace_write_flags_def nothing_changed_def)

text \<open>
  C3. When \<open>overwrite_wim_inplace\<close> has opened, locked and positioned the file and
  the writing of the streams, of the metadata resources or \<open>finish_write\<close> then
  fails with a code, the call returns that code with the file closed and the WIM
  not marked locked. The file is cut to \<open>old_wim_end\<close> bytes only when the flag
  \<open>NO_LOOKUP_TABLE\<close> is not in effect (it is in effect when the caller gave it, or
  when no image was modified and none deleted) and \<open>truncate\<close> itself does not fail;
  the cut gives back the archive as it was if that had \<open>old_wim_end\<close> bytes and the
  failed write left them alone. Otherwise the file stays as the failed write left
  it.
\<close>

theorem overwrite_inplace_failure:
  assumes prep: "inplace_prepare cb w fl out = Inr (w3, fl1, old_end, strms, out3)"
      and wr: "inplace_write e cb w3 fl1 strms nt out3 = Some (Some err, w4, out4)"
  shows "old_end = old_wim_end_of w \<and>
         (WIMLIB_WRITE_FLAG_NO_LOOKUP_TABLE \<in> fl1 \<longleftrightarrow>
            WIMLIB_WRITE_FLAG_NO_LOOKUP_TABLE \<in> fl
            \<or> (\<not> deletion_occurred w \<and> \<not> any_images_modified w)) \<and>
         (\<exists>w' out'.
            overwrite_wim_inplace e cb w fl nt out = Some (Some err, w', out') \<and>
            \<not> wim_out_fp w' \<and> \<not> wim_locked w' \<and>
            (WIMLIB_WRITE_FLAG_NO_LOOKUP_TABLE \<notin> fl1 \<and> \<not> truncate_fails cb \<longrightarrow>
               file_data out' = truncate_to (unat old_end) (file_data out4) \<and>
               length (file_data out') = unat old_end \<and>
               (length (file_data out) = unat old_end \<and>
                take (unat old_end) (file_data out4) = file_data out \<longrightarrow>
                  file_data out' = file_data out)) \<and>
            (WIMLIB_WRITE_FLAG_NO_LOOKUP_TABLE \<in> fl1 \<or> truncate_fails cb \<longrightarrow> out' = out4))"
proof -
  from inplace_prepare_Inr [OF prep] have
    oe: "old_end = old_wim_end_of w" and f1: "fl1 = inplace_write_flags w fl"
    by blast+
  have nl: "WIMLIB_WRITE_FLAG_NO_LOOKUP_TABLE \<in> fl1 \<longleftrightarrow>
            WIMLIB_WRITE_FLAG_NO_LOOKUP_TABLE \<in> fl
            \<or> (\<not> deletion_occurred w \<and> \<not> any_images_modified w)"
    unfolding f1 by (rule inplace_no_lookup_table)
  have ov: "overwrite_wim_inplace e cb w fl nt out
              = Some (out_ftruncate cb fl1 old_end (Some err) w4 out4)"
    by (simp add: overwrite_wim_inplace_def prep wr)
  let ?w' = "(close_wim_writable w4)\<lparr>wim_locked := False\<rparr>"
  let ?out' = "if WIMLIB_WRITE_FLAG_NO_LOOKUP_TABLE \<notin> fl1 \<and> \<not> truncate_fails cb
               then out4\<lparr>file_data := truncate_to (unat old_end) (file_data out4)\<rparr>
               else out4"
  have of: "out_ftruncate cb fl1 old_end (Some err) w4 out4 = (Some err, ?w', ?out')"
    by (simp add: out_ftruncate_def Let_def)
  have c1: "\<not> wim_out_fp ?w'" and c2: "\<not> wim_locked ?w'"
    by (simp_all add: close_wim_writable_def)
  have c3: "WIMLIB_WRITE_FLAG_NO_LOOKUP_TABLE \<notin> fl1 \<and> \<not> truncate_fails cb \<longrightarrow>
               file_data ?out' = truncate_to (unat old_end) (file_data out4) \<and>
               length (file_data ?out') = unat old_end \<and>
               (length (file_data out) = unat old_end \<and>
                take (unat old_end) (file_data out4) = file_data out \<longrightarrow>
                  file_data ?out' = file_data out)"
    by (simp add: length_truncate_to truncate_to_restores)
  have c4: "WIMLIB_WRITE_FLAG_NO_LOOKUP_TABLE \<in> fl1 \<or> truncate_fails cb \<longrightarrow> ?out' = out4"
    by auto
  from ov of have "overwrite_wim_inplace e cb w fl nt out = Some (Some err, ?w', ?out')"
    by simp
  with c1 c2 c3 c4 have
    "\<exists>w' out'.
        overwrite_wim_inplace e cb w fl nt out = Some (Some err, w', out') \<and>
        \<not> wim_out_fp w' \<and> \<not> wim_locked w' \<and>
        (WIMLIB_WRITE_FLAG_NO_LOOKUP_TABLE \<notin> fl1 \<and> \<not> truncate_fails cb \<longrightarrow>
           file_data out' = truncate_to (unat old_end) (file_data out4) \<and>
           length (file_data out') = unat old_end \<and>
           (length (file_data out) = unat old_end \<and>
            take (unat old_end) (file_data out4) = file_data out \<longrightarrow>
              file_data out' = file_data out)) \<and>
        (WIMLIB_WRITE_FLAG_NO_LOOKUP_TABLE \<in> fl1 \<or> truncate_fails cb \<longrightarrow> out' = out4)"
    by blast
  with oe nl show ?thesis by blast
qed

theorem overwrite_inplace_failure_witness:
  "\<exists>w' out'.
     overwrite_wim_inplace (example_env keep_first_byte) example_collaborators
         (example_wim [buffer_stream (replicate 19 0 @ [7]) 3 [1, 2, 3]] True) {} 1
         ((open_file [72, 76, 88])\<lparr>faults := [False, False, False, False, False, True]\<rparr>)
       = Some (Some WIMLIB_ERR_WRITE, w', out') \<and>
     \<not> wim_out_fp w' \<and> \<not> wim_locked w' \<and>
     old_wim_end_of (example_wim [buffer_stream (replicate 19 0 @ [7]) 3 [1, 2, 3]] True) = 3 \<and>
     file_data out' = [72, 76, 88]"
proof -
  let ?E = "example_env keep_first_byte"
  let ?S = "buffer_stream (replicate 19 0 @ [7]) 3 [1, 2, 3]"
  let ?S1 = "?S\<lparr>out_refcnt := 1,
               output_resource_entry := \<lparr>offset = 0, size_e = 3, original_size = 3, flags = {}\<rparr>\<rparr>"
  let ?w = "example_wim [?S] True"
  let ?out = "(open_file [72, 76, 88])\<lparr>faults := [False, False, False, False, False, True]\<rparr>"
  let ?w3 = "?w\<lparr>lookup_table := [?S1], wim_locked := True, wim_out_fp := True\<rparr>"
  let ?out3 = "\<lparr>file_data = [72, 76, 88], file_pos = 3,
                faults = [False, False, False, True], heap_addr = 4096\<rparr>"
  let ?out4 = "\<lparr>file_data = [72, 76, 88, 1], file_pos = 4, faults = [], heap_addr = 4096\<rparr>"
  have prep: "inplace_prepare example_collaborators ?w {} ?out = Inr (?w3, {}, 3, [0], ?out3)"
    by code_simp
  have wr: "inplace_write ?E example_collaborators ?w3 {} [0] 1 ?out3
              = Some (Some WIMLIB_ERR_WRITE, ?w3, ?out4)"
    by code_simp
  have nl: "WIMLIB_WRITE_FLAG_NO_LOOKUP_TABLE \<notin> ({} :: write_flag set)
            \<and> \<not> truncate_fails example_collaborators"
    by (simp add: example_collaborators_def)
  have tr: "truncate_to (unat (3 :: u64)) (file_data ?out4) = [72, 76, 88]"
    by (simp add: truncate_to_def)
  from overwrite_inplace_failure [OF prep wr] nl tr show ?thesis
    by auto
qed

text \<open>
  C3 as stated fails: no image of the WIM was modified and none deleted, so
  \<open>old_wim_end\<close> is 2, the end of the lookup table. The write of a new stream fails
  after one byte has gone over the XML data; the call returns
  \<open>WIMLIB_ERR_WRITE\<close> and the file is left three bytes long, with that byte in it.
\<close>

theorem overwrite_inplace_not_truncated:
  "\<not> deletion_occurred (example_wim [buffer_stream (replicate 19 0 @ [7]) 3 [1, 2, 3]] False) \<and>
   \<not> any_images_modified (example_wim [buffer_stream (replicate 19 0 @ [7]) 3 [1, 2, 3]] False) \<and>
   old_wim_end_of (example_wim [buffer_stream (replicate 19 0 @ [7]) 3 [1, 2, 3]] False) = 2 \<and>
   overwrite_wim_inplace (example_env keep_first_byte) example_collaborators
       (example_wim [buffer_stream (replicate 19 0 @ [7]) 3 [1, 2, 3]] False) {} 1
       ((open_file [72, 76, 88])\<lparr>faults := [False, False, False, False, False, True]\<rparr>)
     = Some (Some WIMLIB_ERR_WRITE,
             example_wim
               [(buffer_stream (replicate 19 0 @ [7]) 3 [1, 2, 3])
                  \<lparr>out_refcnt := 1,
                   output_resource_entry :=
                     \<lparr>offset = 0, size_e = 3, original_size = 3, flags = {}\<rparr>\<rparr>] False,
             \<lparr>file_data = [72, 76, 1], file_pos = 3, faults = [], heap_addr = 4096\<rparr>)"
  by code_simp

section \<open>A resource written compressed or written again\<close>








lemma end_read_keeps [simp]:
  "resource_entry (end_wim_resource_read lte) = resource_entry lte"
  "source (end_wim_resource_read lte) = source lte"
  "hash (end_wim_resource_read lte) = hash lte"
  "output_resource_entry (end_wim_resource_read lte) = output_resource_entry lte"
  by (simp_all add: end_wim_resource_read_def)
















end
